theory Spec2Isabelle
  imports Complex_Main "HOL-Library.AList"
begin

section \<open>Strings and paths\<close>

text \<open>
  Python's \<^verbatim>\<open>s.endswith(suf)\<close>, \<^verbatim>\<open>sub in s\<close> and \<^verbatim>\<open>s.lower()\<close> on strings, and
  \<^verbatim>\<open>os.path.basename\<close> / \<^verbatim>\<open>os.path.join\<close> with the POSIX separator. \<open>lower\<close> folds
  the ASCII letters only.
\<close>

definition endswith :: "string \<Rightarrow> string \<Rightarrow> bool" where
  "endswith s suf = (length suf \<le> length s \<and> drop (length s - length suf) s = suf)"

fun startswith :: "string \<Rightarrow> string \<Rightarrow> bool" where
  "startswith s [] = True"
| "startswith [] (c # cs) = False"
| "startswith (d # ds) (c # cs) = (d = c \<and> startswith ds cs)"

fun contains :: "string \<Rightarrow> string \<Rightarrow> bool" where
  "contains [] sub = (sub = [])"
| "contains (c # cs) sub = (startswith (c # cs) sub \<or> contains cs sub)"

definition lower_char :: "char \<Rightarrow> char" where
  "lower_char c =
     (case map_of (zip ''ABCDEFGHIJKLMNOPQRSTUVWXYZ'' ''abcdefghijklmnopqrstuvwxyz'') c of
        Some d \<Rightarrow> d
      | None \<Rightarrow> c)"

definition lower :: "string \<Rightarrow> string" where
  "lower s = map lower_char s"

definition basename :: "string \<Rightarrow> string" where
  "basename p = rev (takeWhile (\<lambda>c. c \<noteq> CHR ''/'') (rev p))"

definition path_join :: "string \<Rightarrow> string \<Rightarrow> string" where
  "path_join a b =
     (if startswith b ''/'' then b
      else if a = [] \<or> endswith a ''/'' then a @ b
      else a @ ''/'' @ b)"

section \<open>File Change Detector (class PicoFileWatcher)\<close>

text \<open>
  The watchdog event carries \<^verbatim>\<open>is_directory\<close> and \<^verbatim>\<open>src_path\<close>. The attribute
  \<^verbatim>\<open>last_modified\<close> is the dictionary from path to the time of the last accepted
  "modified" event. \<^verbatim>\<open>time.time()\<close> is an input of the handler (\<open>current_time\<close>),
  read as a real number of seconds. What a handler does is the list of its actions in
  program order: the sleep of \<^verbatim>\<open>on_created\<close> and the calls of \<^verbatim>\<open>self.callback\<close>.
\<close>

record fs_event =
  is_directory :: bool
  src_path :: string

type_synonym ledger = "string \<rightharpoonup> real"

datatype watcher_action = Sleep real | Callback string

definition on_modified :: "real \<Rightarrow> fs_event \<Rightarrow> ledger \<Rightarrow> ledger \<times> watcher_action list" where
  "on_modified current_time event last_modified =
     (if is_directory event then (last_modified, [])
      else if endswith (src_path event) ''.py'' then
        (case last_modified (src_path event) of
           Some t \<Rightarrow>
             if current_time - t < 1 then (last_modified, [])
             else (last_modified(src_path event \<mapsto> current_time), [Callback (src_path event)])
         | None \<Rightarrow>
             (last_modified(src_path event \<mapsto> current_time), [Callback (src_path event)]))
      else (last_modified, []))"

definition on_created :: "fs_event \<Rightarrow> ledger \<Rightarrow> ledger \<times> watcher_action list" where
  "on_created event last_modified =
     (if \<not> is_directory event \<and> endswith (src_path event) ''.py''
      then (last_modified, [Sleep (1 / 10), Callback (src_path event)])
      else (last_modified, []))"

text \<open>
  The observer thread delivers the events one after another; each "modified" event comes
  with the clock value its handler reads.
\<close>

fun modified_events :: "(real \<times> fs_event) list \<Rightarrow> ledger \<Rightarrow> ledger \<times> watcher_action list" where
  "modified_events [] last_modified = (last_modified, [])"
| "modified_events ((current_time, event) # rest) last_modified =
     (let (m1, out1) = on_modified current_time event last_modified;
          (m2, out2) = modified_events rest m1
      in (m2, out1 @ out2))"

definition file_event :: "string \<Rightarrow> fs_event" where
  "file_event p = \<lparr>is_directory = False, src_path = p\<rparr>"

definition accepts :: "ledger \<Rightarrow> string \<Rightarrow> real \<Rightarrow> bool" where
  "accepts last_modified p current_time =
     (case last_modified p of None \<Rightarrow> True | Some t \<Rightarrow> \<not> current_time - t < 1)"

fun spaced :: "real \<Rightarrow> real list \<Rightarrow> bool" where
  "spaced t [] = True"
| "spaced t (u # us) = (1 < u - t \<and> spaced u us)"

section \<open>Device Presence Monitor (PicoSyncManager.monitor_usb)\<close>

text \<open>
  One serial port as \<^verbatim>\<open>serial.tools.list_ports.comports()\<close> lists it. A poll tick reads
  two things from the operating system: the result of \<^verbatim>\<open>find_bootsel_drive()\<close> (a path or
  \<^verbatim>\<open>None\<close>) and the port list; either call may raise.
\<close>

datatype exn =
    OSError | CalledProcessError | TimeoutExpired | UnicodeDecodeError | TypeError | ValueError

datatype level = DEBUG | INFO | WARNING | ERROR | SUCCESS

record port =
  device :: string
  hwid :: string
  description :: string

record tick_input =
  bootsel_scan :: "exn + string option"
  comports :: "exn + port list"

text \<open>
  \<open>bootsel_detected\<close> is the local variable of \<^verbatim>\<open>monitor_usb\<close>; \<open>pico_connected\<close> and
  \<open>current_port\<close> are the attributes it writes.
\<close>

record monitor_state =
  bootsel_detected :: bool
  pico_connected :: bool
  current_port :: "string option"

text \<open>
  The callbacks handed to \<^verbatim>\<open>self.root.after(0, ...)\<close>: \<^verbatim>\<open>on_bootsel_detected(drive)\<close>,
  \<^verbatim>\<open>on_pico_connected\<close> and \<^verbatim>\<open>on_pico_disconnected\<close>. \<open>BootloaderLost\<close> is the fourth
  event of the design's vocabulary; no statement of \<^verbatim>\<open>monitor_usb\<close> schedules a callback
  for it. The callback for the bootloader is a closure over the loop variable
  \<^verbatim>\<open>bootsel_drive\<close>: \<open>BootloaderDetected\<close> carries the value the variable holds in the
  tick that schedules the callback, which is the argument of \<^verbatim>\<open>on_bootsel_detected\<close> when
  Tk runs the callback before the next tick assigns the variable again; a callback that
  Tk runs later reads the later value. Which callbacks are scheduled, how many and in
  which order does not depend on it.
\<close>

datatype transition = BootloaderDetected string | BootloaderLost | Connected | Disconnected

datatype monitor_effect = After transition | UsbMonitoringError exn

text \<open>Python's truth value of a string or \<^verbatim>\<open>None\<close>.\<close>

definition truthy :: "string option \<Rightarrow> bool" where
  "truthy v = (case v of None \<Rightarrow> False | Some s \<Rightarrow> s \<noteq> [])"

fun find_pico_port :: "port list \<Rightarrow> string option" where
  "find_pico_port [] = None"
| "find_pico_port (p # ports) =
     (if contains (lower (hwid p)) ''2e8a''
         \<or> contains (lower (description p)) ''raspberry pi pico''
         \<or> contains (lower (description p)) ''pico''
      then Some (device p)
      else find_pico_port ports)"

text \<open>
  The body of the \<^verbatim>\<open>try\<close> block of one tick: the state and the callbacks scheduled when
  the body ends, and the exception that ended it, if one did.
\<close>

definition poll_body ::
  "tick_input \<Rightarrow> monitor_state \<Rightarrow> monitor_state \<times> monitor_effect list \<times> exn option" where
  "poll_body inp s =
     (case bootsel_scan inp of
        Inl e \<Rightarrow> (s, [], Some e)
      | Inr bootsel_drive \<Rightarrow>
          (let (s1, out1) =
                 (if truthy bootsel_drive \<and> \<not> bootsel_detected s then
                    (s\<lparr>bootsel_detected := True\<rparr>,
                     (case bootsel_drive of
                        Some d \<Rightarrow> [After (BootloaderDetected d)]
                      | None \<Rightarrow> []))
                  else if \<not> truthy bootsel_drive \<and> bootsel_detected s then
                    (s\<lparr>bootsel_detected := False\<rparr>, [])
                  else (s, []))
           in (case comports inp of
                 Inl e \<Rightarrow> (s1, out1, Some e)
               | Inr ports \<Rightarrow>
                   (let pico_port = find_pico_port ports
                    in if truthy pico_port \<and> \<not> pico_connected s1 then
                         (s1\<lparr>current_port := pico_port, pico_connected := True\<rparr>,
                          out1 @ [After Connected], None)
                       else if \<not> truthy pico_port \<and> pico_connected s1 then
                         (s1\<lparr>pico_connected := False, current_port := None\<rparr>,
                          out1 @ [After Disconnected], None)
                       else (s1, out1, None)))))"

text \<open>One iteration of \<^verbatim>\<open>while True\<close>: the body, and the handler of \<^verbatim>\<open>except Exception\<close>.\<close>

definition poll :: "tick_input \<Rightarrow> monitor_state \<Rightarrow> monitor_state \<times> monitor_effect list" where
  "poll inp s =
     (let (s1, out, raised) = poll_body inp s
      in (s1, out @ (case raised of None \<Rightarrow> [] | Some e \<Rightarrow> [UsbMonitoringError e])))"

text \<open>
  The loop over a script of tick inputs; the result lists, tick by tick, what each
  iteration did.
\<close>

fun monitor_usb :: "tick_input list \<Rightarrow> monitor_state \<Rightarrow> monitor_state \<times> monitor_effect list list" where
  "monitor_usb [] s = (s, [])"
| "monitor_usb (inp # rest) s =
     (let (s1, out) = poll inp s;
          (s2, outs) = monitor_usb rest s1
      in (s2, out # outs))"

definition initial_state :: monitor_state where
  "initial_state = \<lparr>bootsel_detected = False, pico_connected = False, current_port = None\<rparr>"

fun transitions :: "monitor_effect list \<Rightarrow> transition list" where
  "transitions [] = []"
| "transitions (After t # out) = t # transitions out"
| "transitions (UsbMonitoringError e # out) = transitions out"

definition is_bootloader_event :: "transition \<Rightarrow> bool" where
  "is_bootloader_event t = (case t of BootloaderDetected d \<Rightarrow> True | BootloaderLost \<Rightarrow> True | _ \<Rightarrow> False)"

definition is_serial_event :: "transition \<Rightarrow> bool" where
  "is_serial_event t = (case t of Connected \<Rightarrow> True | Disconnected \<Rightarrow> True | _ \<Rightarrow> False)"

definition no_device :: tick_input where
  "no_device = \<lparr>bootsel_scan = Inr None, comports = Inr []\<rparr>"

definition bootloader_at :: "string \<Rightarrow> tick_input" where
  "bootloader_at d = \<lparr>bootsel_scan = Inr (Some d), comports = Inr []\<rparr>"

definition serial_ports :: "port list \<Rightarrow> tick_input" where
  "serial_ports ports = \<lparr>bootsel_scan = Inr None, comports = Inr ports\<rparr>"

definition acm0 :: port where
  "acm0 = \<lparr>device = ''/dev/ttyACM0'', hwid = ''USB VID:PID=2E8A:0005'',
                 description = ''Board in FS mode''\<rparr>"

section \<open>Transfer Gateway calls (subprocess.run on mpremote)\<close>

text \<open>
  What the external process does once started: it exits after some time with a return
  code and its standard output, or with output that is not text in the locale's encoding,
  or it never exits; or it cannot be started at all. Every call modelled here passes
  \<^verbatim>\<open>capture_output=True, text=True\<close>, so output that cannot be decoded raises
  \<^verbatim>\<open>UnicodeDecodeError\<close>.
  \<^verbatim>\<open>subprocess.run(..., timeout=t, check=c)\<close> returns the completed process, raises, or,
  with no timeout on a process that never exits, does not return: the value \<open>None\<close>.
\<close>

datatype process = Exits real int string | ExitsUndecodable real int | Hangs | CannotStart

fun subprocess_run :: "real option \<Rightarrow> bool \<Rightarrow> process \<Rightarrow> (exn + int \<times> string) option" where
  "subprocess_run timeout check CannotStart = Some (Inl OSError)"
| "subprocess_run timeout check Hangs =
     (case timeout of None \<Rightarrow> None | Some t \<Rightarrow> Some (Inl TimeoutExpired))"
| "subprocess_run timeout check (Exits duration returncode stdout) =
     (if (case timeout of None \<Rightarrow> False | Some t \<Rightarrow> t < duration) then Some (Inl TimeoutExpired)
      else if check \<and> returncode \<noteq> 0 then Some (Inl CalledProcessError)
      else Some (Inr (returncode, stdout)))"
| "subprocess_run timeout check (ExitsUndecodable duration returncode) =
     (if (case timeout of None \<Rightarrow> False | Some t \<Rightarrow> t < duration) then Some (Inl TimeoutExpired)
      else Some (Inl UnicodeDecodeError))"

text \<open>
  What the dispatcher does, in program order: a call of \<^verbatim>\<open>subprocess.run\<close> with its
  argument vector and its timeout, a call of \<^verbatim>\<open>self.log\<close> with level and message, and the
  scheduling of \<^verbatim>\<open>refresh_files\<close>. Updates of widgets (operation label, progress bar,
  queue list box) are left out.
\<close>

datatype log_message =
    Synced string
  | FailedToSync string
  | DirectorySyncComplete nat
  | DirectorySyncError exn
  | SyncError exn

datatype sync_effect = Run "string list" "real option" | Log level log_message | RefreshFiles

definition cp_argv :: "string \<Rightarrow> string \<Rightarrow> string list" where
  "cp_argv filepath filename =
     [''mpremote'', ''connect'', ''auto'', ''cp'', filepath, '':'' @ filename]"

definition detect_argv :: "string list" where
  "detect_argv =
     [''mpremote'', ''connect'', ''auto'', ''exec'', ''import sys; print(sys.implementation.name)'']"

text \<open>
  \<^verbatim>\<open>detect_pico_model\<close>: the call it makes, the new value of \<^verbatim>\<open>self.pico_model\<close> when it
  assigns one, and the text it puts on the model label.
\<close>

definition detect_pico_model :: "process \<Rightarrow> (sync_effect \<times> string option \<times> string) option" where
  "detect_pico_model p =
     (case subprocess_run (Some 5) False p of
        None \<Rightarrow> None
      | Some (Inr (returncode, stdout)) \<Rightarrow>
          if contains (lower stdout) ''rp2040''
          then Some (Run detect_argv (Some 5), Some ''RP2040'', ''Pico (RP2040)'')
          else if contains (lower stdout) ''rp2350''
          then Some (Run detect_argv (Some 5), Some ''RP2350'', ''Pico 2 (RP2350)'')
          else Some (Run detect_argv (Some 5), None, ''Unknown Model'')
      | Some (Inl e) \<Rightarrow> Some (Run detect_argv (Some 5), None, ''Model Detection Failed''))"

section \<open>Configuration (load_config, save_config)\<close>

text \<open>
  The values \<^verbatim>\<open>json.load\<close> can return (numbers as integers only); a Python dictionary is
  an association list in insertion order, \<^verbatim>\<open>d[k] = v\<close> is \<open>AList.update\<close> and
  \<^verbatim>\<open>d.get(k, default)\<close> is \<open>config_get\<close>.
\<close>

datatype json =
    JNull
  | JBool bool
  | JInt int
  | JStr string
  | JList "json list"
  | JDict "(string \<times> json) list"

type_synonym config = "(string \<times> json) list"

definition config_get :: "config \<Rightarrow> string \<Rightarrow> json \<Rightarrow> json" where
  "config_get cfg key dflt = (case map_of cfg key of Some v \<Rightarrow> v | None \<Rightarrow> dflt)"

fun json_truthy :: "json \<Rightarrow> bool" where
  "json_truthy JNull = False"
| "json_truthy (JBool b) = b"
| "json_truthy (JInt i) = (i \<noteq> 0)"
| "json_truthy (JStr s) = (s \<noteq> [])"
| "json_truthy (JList l) = (l \<noteq> [])"
| "json_truthy (JDict d) = (d \<noteq> [])"

text \<open>The Tk variables that \<^verbatim>\<open>save_config\<close> reads.\<close>

record ui_vars =
  dir_var :: string
  auto_sync_enabled :: bool
  file_types_var :: string
  sync_subdirs_var :: bool
  auto_flash_var :: bool
  show_notifications_var :: bool
  log_level_var :: string

text \<open>The seven assignments to \<^verbatim>\<open>self.config\<close>, in the order of the source.\<close>

definition save_fields :: "ui_vars \<Rightarrow> config \<Rightarrow> config" where
  "save_fields v cfg =
     AList.update ''log_level'' (JStr (log_level_var v))
       (AList.update ''show_notifications'' (JBool (show_notifications_var v))
         (AList.update ''auto_flash'' (JBool (auto_flash_var v))
           (AList.update ''sync_subdirs'' (JBool (sync_subdirs_var v))
             (AList.update ''file_types'' (JStr (file_types_var v))
               (AList.update ''auto_sync'' (JBool (auto_sync_enabled v))
                 (AList.update ''sync_directory'' (JStr (dir_var v)) cfg))))))"

text \<open>
  The file \<^verbatim>\<open>CONFIG_FILE\<close>: its contents when it exists, and whether opening it for
  reading and for writing succeeds. The contents are of a type \<open>'f\<close>; \<^verbatim>\<open>json.dump\<close> (with
  \<^verbatim>\<open>indent=2\<close>) and \<^verbatim>\<open>json.load\<close> belong to the standard library and are parameters
  \<open>dump\<close> and \<open>load\<close>.
\<close>

record 'f disk =
  config_file :: "'f option"
  readable :: bool
  writable :: bool

definition load_config :: "('f \<Rightarrow> exn + json) \<Rightarrow> 'f disk \<Rightarrow> json" where
  "load_config load d =
     (case config_file d of
        Some text \<Rightarrow>
          if readable d then (case load text of Inr v \<Rightarrow> v | Inl e \<Rightarrow> JDict []) else JDict []
      | None \<Rightarrow> JDict [])"

definition save_config ::
  "(json \<Rightarrow> 'f) \<Rightarrow> ui_vars \<Rightarrow> config \<Rightarrow> 'f disk \<Rightarrow> config \<times> (exn + 'f disk)" where
  "save_config dump v cfg d =
     (let cfg1 = save_fields v cfg
      in (cfg1,
          if writable d then Inr (d\<lparr>config_file := Some (dump (JDict cfg1))\<rparr>)
          else Inl OSError))"

text \<open>
  Start-up: the initial values of the seven Tk variables, each
  \<^verbatim>\<open>self.config.get(key, default)\<close>. A \<^verbatim>\<open>StringVar\<close> is given a string and a
  \<^verbatim>\<open>BooleanVar\<close> a boolean; what Tk makes of a value of another type is not modelled
  (\<open>None\<close>).
\<close>

definition as_str :: "json \<Rightarrow> string option" where
  "as_str j = (case j of JStr s \<Rightarrow> Some s | _ \<Rightarrow> None)"

definition as_bool :: "json \<Rightarrow> bool option" where
  "as_bool j = (case j of JBool b \<Rightarrow> Some b | _ \<Rightarrow> None)"

definition startup_vars :: "config \<Rightarrow> ui_vars option" where
  "startup_vars cfg =
     (case as_str (config_get cfg ''sync_directory'' (JStr [])) of None \<Rightarrow> None | Some d \<Rightarrow>
      case as_bool (config_get cfg ''auto_sync'' (JBool True)) of None \<Rightarrow> None | Some a \<Rightarrow>
      case as_str (config_get cfg ''file_types'' (JStr ''*.py'')) of None \<Rightarrow> None | Some f \<Rightarrow>
      case as_bool (config_get cfg ''sync_subdirs'' (JBool True)) of None \<Rightarrow> None | Some r \<Rightarrow>
      case as_bool (config_get cfg ''auto_flash'' (JBool False)) of None \<Rightarrow> None | Some fl \<Rightarrow>
      case as_bool (config_get cfg ''show_notifications'' (JBool True)) of None \<Rightarrow> None | Some n \<Rightarrow>
      case as_str (config_get cfg ''log_level'' (JStr ''INFO'')) of None \<Rightarrow> None | Some l \<Rightarrow>
        Some \<lparr>dir_var = d, auto_sync_enabled = a, file_types_var = f, sync_subdirs_var = r,
              auto_flash_var = fl, show_notifications_var = n, log_level_var = l\<rparr>)"

section \<open>Sync Dispatcher (process_sync_queue, sync_single_file, sync_directory)\<close>

text \<open>
  What the dispatcher thread reads while it handles one work item: the flag
  \<^verbatim>\<open>self.pico_connected\<close>, which the monitor thread writes, at the entry check and at the
  check that opens loop iteration \<open>i\<close>; and the behaviour of the process that the \<open>i\<close>-th
  copy starts.
\<close>

record sync_env =
  connected_on_entry :: bool
  connected_at :: "nat \<Rightarrow> bool"
  copy_process :: "nat \<Rightarrow> process"

text \<open>
  \<^verbatim>\<open>sync_single_file\<close>: what it did, and the exception it lets through, if any (only
  \<^verbatim>\<open>CalledProcessError\<close> is handled).
\<close>

definition sync_single_file :: "sync_env \<Rightarrow> string \<Rightarrow> (sync_effect list \<times> exn option) option" where
  "sync_single_file env filepath =
     (if \<not> connected_on_entry env then Some ([], None)
      else
        (let filename = basename filepath
         in case subprocess_run None True (copy_process env 0) of
              None \<Rightarrow> None
            | Some (Inr completed) \<Rightarrow>
                Some ([Run (cp_argv filepath filename) None, Log SUCCESS (Synced filename),
                       RefreshFiles], None)
            | Some (Inl e) \<Rightarrow>
                if e = CalledProcessError
                then Some ([Run (cp_argv filepath filename) None,
                            Log ERROR (FailedToSync filename)], None)
                else Some ([Run (cp_argv filepath filename) None], Some e)))"

text \<open>
  The directory tree below the sync directory: the names of the files in a directory and
  its subdirectories by name. \<open>walk_py\<close> is the loop over \<^verbatim>\<open>os.walk(directory)\<close>, top
  down, which keeps the names ending in \<^verbatim>\<open>.py\<close>.
\<close>

datatype dir_tree = Dir "string list" "(string \<times> dir_tree) list"

fun walk_py :: "string \<Rightarrow> dir_tree \<Rightarrow> string list" where
  "walk_py dirpath (Dir filenames dirs) =
     map (path_join dirpath) (filter (\<lambda>filename. endswith filename ''.py'') filenames)
     @ concat (map (\<lambda>entry. walk_py (path_join dirpath (fst entry)) (snd entry)) dirs)"

text \<open>
  \<^verbatim>\<open>Path(directory).glob(pattern)\<close> belongs to the standard library and is the parameter
  \<open>glob\<close>: for a directory and a pattern, the paths it yields, each with the answer of
  \<^verbatim>\<open>is_file()\<close>, or the exception it raises. A pattern that is not a string never
  reaches the matching: a false one (\<^verbatim>\<open>None\<close>, \<^verbatim>\<open>False\<close>, 0, an empty list or
  dictionary) raises \<^verbatim>\<open>ValueError\<close>, any other \<^verbatim>\<open>TypeError\<close>.
\<close>

type_synonym glob = "string \<Rightarrow> string \<Rightarrow> exn + (string \<times> bool) list"

definition list_files :: "glob \<Rightarrow> config \<Rightarrow> dir_tree \<Rightarrow> string \<Rightarrow> exn + string list" where
  "list_files glob cfg tree directory =
     (let pattern = config_get cfg ''file_types'' (JStr ''*.py'')
      in if json_truthy (config_get cfg ''sync_subdirs'' (JBool True))
         then Inr (walk_py directory tree)
         else (case pattern of
                 JStr pat \<Rightarrow>
                   (case glob directory pat of
                      Inr found \<Rightarrow> Inr (map fst (filter snd found))
                    | Inl e \<Rightarrow> Inl e)
               | _ \<Rightarrow> if json_truthy pattern then Inl TypeError else Inl ValueError))"

text \<open>
  The loop \<^verbatim>\<open>for i, filepath in enumerate(files)\<close>: what it did, and the exception that
  left it, if any.
\<close>

fun sync_files :: "sync_env \<Rightarrow> nat \<Rightarrow> string list \<Rightarrow> (sync_effect list \<times> exn option) option" where
  "sync_files env i [] = Some ([], None)"
| "sync_files env i (filepath # rest) =
     (if \<not> connected_at env i then Some ([], None)
      else
        (case subprocess_run None True (copy_process env i) of
           None \<Rightarrow> None
         | Some (Inr completed) \<Rightarrow>
             (case sync_files env (Suc i) rest of
                None \<Rightarrow> None
              | Some (out, raised) \<Rightarrow>
                  Some (Run (cp_argv filepath (basename filepath)) None
                        # Log SUCCESS (Synced (basename filepath)) # out, raised))
         | Some (Inl e) \<Rightarrow>
             if e = CalledProcessError
             then (case sync_files env (Suc i) rest of
                     None \<Rightarrow> None
                   | Some (out, raised) \<Rightarrow>
                       Some (Run (cp_argv filepath (basename filepath)) None
                             # Log ERROR (FailedToSync (basename filepath)) # out, raised))
             else Some ([Run (cp_argv filepath (basename filepath)) None], Some e)))"

definition sync_directory ::
  "glob \<Rightarrow> config \<Rightarrow> dir_tree \<Rightarrow> sync_env \<Rightarrow> string \<Rightarrow> sync_effect list option" where
  "sync_directory glob cfg tree env directory =
     (if \<not> connected_on_entry env then Some []
      else
        (case list_files glob cfg tree directory of
           Inl e \<Rightarrow> Some [Log ERROR (DirectorySyncError e)]
         | Inr files \<Rightarrow>
             (case sync_files env 0 files of
                None \<Rightarrow> None
              | Some (out, Some e) \<Rightarrow> Some (out @ [Log ERROR (DirectorySyncError e)])
              | Some (out, None) \<Rightarrow>
                  Some (out @ [Log INFO (DirectorySyncComplete (length files)), RefreshFiles]))))"

text \<open>
  The queue holds the tuples \<^verbatim>\<open>('file', filepath)\<close> and \<^verbatim>\<open>('full', directory)\<close>. One
  iteration of the consumer loop pops the head of the queue (an empty queue times out and
  the loop goes on) and handles it; an exception that reaches the loop is logged there.
\<close>

datatype work_item = SingleFile string | FullDirectory string

definition process_item ::
  "glob \<Rightarrow> config \<Rightarrow> dir_tree \<Rightarrow> sync_env \<Rightarrow> work_item \<Rightarrow> sync_effect list option" where
  "process_item glob cfg tree env item =
     (case item of
        SingleFile filepath \<Rightarrow>
          (case sync_single_file env filepath of
             None \<Rightarrow> None
           | Some (out, None) \<Rightarrow> Some out
           | Some (out, Some e) \<Rightarrow> Some (out @ [Log ERROR (SyncError e)]))
      | FullDirectory directory \<Rightarrow> sync_directory glob cfg tree env directory)"

definition process_sync_queue ::
  "glob \<Rightarrow> config \<Rightarrow> dir_tree \<Rightarrow> sync_env \<Rightarrow> work_item list
     \<Rightarrow> (work_item list \<times> sync_effect list) option" where
  "process_sync_queue glob cfg tree env queue =
     (case queue of
        [] \<Rightarrow> Some ([], [])
      | item # rest \<Rightarrow>
          (case process_item glob cfg tree env item of
             None \<Rightarrow> None
           | Some out \<Rightarrow> Some (rest, out)))"

fun runs :: "sync_effect list \<Rightarrow> (string list \<times> real option) list" where
  "runs [] = []"
| "runs (Run argv timeout # out) = (argv, timeout) # runs out"
| "runs (e # out) = runs out"

fun logs :: "sync_effect list \<Rightarrow> (level \<times> log_message) list" where
  "logs [] = []"
| "logs (Log l m # out) = (l, m) # logs out"
| "logs (e # out) = logs out"

text \<open>
  For stating what a batch did: a process that was started and exited with output that
  could be decoded, and what the loop does for one file whose copy process \<open>p\<close> is such
  a process (the call, then the log entry of the success path or of the
  \<^verbatim>\<open>CalledProcessError\<close> handler).
\<close>

definition exits :: "process \<Rightarrow> bool" where
  "exits p = (case p of Exits duration returncode stdout \<Rightarrow> True | _ \<Rightarrow> False)"

definition file_result :: "process \<Rightarrow> string \<Rightarrow> sync_effect list" where
  "file_result p filepath =
     [Run (cp_argv filepath (basename filepath)) None,
      (case p of
         Exits duration returncode stdout \<Rightarrow>
           if returncode = 0 then Log SUCCESS (Synced (basename filepath))
           else Log ERROR (FailedToSync (basename filepath))
       | _ \<Rightarrow> Log ERROR (FailedToSync (basename filepath)))]"

fun attempted :: "sync_env \<Rightarrow> nat \<Rightarrow> string list \<Rightarrow> sync_effect list" where
  "attempted env i [] = []"
| "attempted env i (filepath # rest) =
     file_result (copy_process env i) filepath @ attempted env (Suc i) rest"

section \<open>Example inputs\<close>

text \<open>
  Concrete inputs for the closed theorems below. \<open>no_glob\<close> is a \<^verbatim>\<open>glob\<close> that
  finds nothing, \<open>txt_glob\<close> one that finds the regular file \<^verbatim>\<open>notes.txt\<close> for the
  pattern \<^verbatim>\<open>*.txt\<close>, as \<^verbatim>\<open>Path.glob\<close> does in the directory \<open>notes_and_main\<close>. The
  environments give the connection flag and the copy processes of a batch: all copies
  succeed; the device is not connected; the flag is cleared after the first file; the
  second copy exits with return code 1; the process of the second copy cannot be started;
  the output of the first copy cannot be decoded; no copy process ever exits.
\<close>

definition no_glob :: glob where
  "no_glob directory pat = Inr []"

definition txt_glob :: glob where
  "txt_glob directory pat =
     (if pat = ''*.txt'' then Inr [(path_join directory ''notes.txt'', True)] else Inr [])"

definition recursive_txt :: config where
  "recursive_txt = [(''file_types'', JStr ''*.txt''), (''sync_subdirs'', JBool True)]"

definition flat_txt :: config where
  "flat_txt = [(''file_types'', JStr ''*.txt''), (''sync_subdirs'', JBool False)]"

definition all_ok :: sync_env where
  "all_ok = \<lparr>connected_on_entry = True, connected_at = (\<lambda>i. True),
             copy_process = (\<lambda>i. Exits 2 0 [])\<rparr>"

definition offline :: sync_env where
  "offline = \<lparr>connected_on_entry = False, connected_at = (\<lambda>i. False),
              copy_process = (\<lambda>i. Exits 1 1 [])\<rparr>"

definition unplugged_after_first :: sync_env where
  "unplugged_after_first =
     \<lparr>connected_on_entry = True, connected_at = (\<lambda>i. i < 1),
      copy_process = (\<lambda>i. if i < 1 then Exits 2 0 [] else Exits 1 1 [])\<rparr>"

definition middle_fails :: sync_env where
  "middle_fails = \<lparr>connected_on_entry = True, connected_at = (\<lambda>i. True),
                   copy_process = (\<lambda>i. if i = 1 then Exits 1 1 [] else Exits 2 0 [])\<rparr>"

definition middle_cannot_start :: sync_env where
  "middle_cannot_start =
     \<lparr>connected_on_entry = True, connected_at = (\<lambda>i. True),
      copy_process = (\<lambda>i. if i = 1 then CannotStart else Exits 2 0 [])\<rparr>"

definition first_undecodable :: sync_env where
  "first_undecodable =
     \<lparr>connected_on_entry = True, connected_at = (\<lambda>i. True),
      copy_process = (\<lambda>i. if i = 0 then ExitsUndecodable 2 0 else Exits 2 0 [])\<rparr>"

definition hanging :: sync_env where
  "hanging = \<lparr>connected_on_entry = True, connected_at = (\<lambda>i. True),
              copy_process = (\<lambda>i. Hangs)\<rparr>"

definition three_files :: dir_tree where
  "three_files = Dir [''boot.py'', ''main.py'', ''util.py''] []"

definition notes_and_main :: dir_tree where
  "notes_and_main = Dir [''notes.txt'', ''main.py''] []"

definition example_vars :: ui_vars where
  "example_vars =
     \<lparr>dir_var = ''/home/u/proj'', auto_sync_enabled = False, file_types_var = ''*.txt'',
      sync_subdirs_var = False, auto_flash_var = True, show_notifications_var = False,
      log_level_var = ''DEBUG''\<rparr>"

definition old_config :: config where
  "old_config = [(''sync_directory'', JStr ''/home/u/old''), (''geometry'', JStr ''800x600'')]"

definition empty_disk :: "json disk" where
  "empty_disk = \<lparr>config_file = None, readable = True, writable = True\<rparr>"

definition acm0_connected :: monitor_state where
  "acm0_connected =
     \<lparr>bootsel_detected = False, pico_connected = True, current_port = Some ''/dev/ttyACM0''\<rparr>"

section \<open>File Change Detector: proofs\<close>

lemma on_modified_accept:
  "endswith p ''.py'' \<Longrightarrow> accepts m p t \<Longrightarrow>
   on_modified t (file_event p) m = (m(p \<mapsto> t), [Callback p])"
  by (simp add: on_modified_def file_event_def accepts_def split: option.splits)

lemma on_modified_discard:
  "m p = Some t0 \<Longrightarrow> t - t0 < 1 \<Longrightarrow> on_modified t (file_event p) m = (m, [])"
  by (simp add: on_modified_def file_event_def)

lemma burst_discarded:
  "m p = Some t0 \<Longrightarrow> \<forall>t\<in>set ts. t - t0 < 1 \<Longrightarrow>
   modified_events (map (\<lambda>t. (t, file_event p)) ts) m = (m, [])"
  by (induction ts) (simp_all add: on_modified_discard)

lemma spaced_accepted:
  "endswith p ''.py'' \<Longrightarrow> m p = Some t0 \<Longrightarrow> spaced t0 ts \<Longrightarrow>
   snd (modified_events (map (\<lambda>t. (t, file_event p)) ts) m) = replicate (length ts) (Callback p)
   \<and> fst (modified_events (map (\<lambda>t. (t, file_event p)) ts) m) p = Some (last (t0 # ts))"
proof (induction ts arbitrary: m t0)
  case Nil
  then show ?case by simp
next
  case (Cons u us)
  from Cons.prems have acc: "accepts m p u"
    by (simp add: accepts_def)
  from Cons.prems have sp: "spaced u us"
    by simp
  have step: "on_modified u (file_event p) m = (m(p \<mapsto> u), [Callback p])"
    using Cons.prems(1) acc by (rule on_modified_accept)
  have entry: "(m(p \<mapsto> u)) p = Some u"
    by simp
  have ih: "snd (modified_events (map (\<lambda>t. (t, file_event p)) us) (m(p \<mapsto> u)))
              = replicate (length us) (Callback p)
          \<and> fst (modified_events (map (\<lambda>t. (t, file_event p)) us) (m(p \<mapsto> u))) p
              = Some (last (u # us))"
    using Cons.prems(1) entry sp by (rule Cons.IH)
  have unfold: "modified_events (map (\<lambda>t. (t, file_event p)) (u # us)) m
      = (fst (modified_events (map (\<lambda>t. (t, file_event p)) us) (m(p \<mapsto> u))),
         Callback p # snd (modified_events (map (\<lambda>t. (t, file_event p)) us) (m(p \<mapsto> u))))"
    by (simp add: step split_beta)
  show ?case
    unfolding unfold using ih by simp
qed

lemma on_modified_ledger:
  "snd (on_modified t e m) = [] \<Longrightarrow> fst (on_modified t e m) = m"
  by (simp add: on_modified_def split: if_splits option.splits)

lemma on_modified_ledger_accept:
  "snd (on_modified t e m) \<noteq> [] \<Longrightarrow>
   snd (on_modified t e m) = [Callback (src_path e)] \<and>
   fst (on_modified t e m) = m(src_path e \<mapsto> t)"
  by (simp add: on_modified_def split: if_splits option.splits)

text \<open>
  C2. On a path ending in \<^verbatim>\<open>.py\<close> whose first "modified" event at \<open>t0\<close> is accepted
  (no entry in the ledger, or one at least a second old): a burst of further events that
  all arrive less than one second after \<open>t0\<close> leads to exactly one callback and the ledger
  entry \<open>t0\<close>; events each more than one second after the previously accepted one lead to
  one callback each, the ledger holding the time of the last; and a handler run that makes
  no callback leaves the ledger as it was, while one that makes a callback stores exactly
  the time of that event for its path.
\<close>

theorem debounce_modified:
  assumes py: "endswith p ''.py''"
    and first: "accepts m p t0"
  shows "((\<forall>t\<in>set ts. t - t0 < 1) \<longrightarrow>
            modified_events (map (\<lambda>t. (t, file_event p)) (t0 # ts)) m
              = (m(p \<mapsto> t0), [Callback p]))
       \<and> (spaced t0 ts \<longrightarrow>
            snd (modified_events (map (\<lambda>t. (t, file_event p)) (t0 # ts)) m)
              = replicate (Suc (length ts)) (Callback p)
            \<and> fst (modified_events (map (\<lambda>t. (t, file_event p)) (t0 # ts)) m) p
              = Some (last (t0 # ts)))
       \<and> (\<forall>t e l. (snd (on_modified t e l) = [] \<longrightarrow> fst (on_modified t e l) = l)
            \<and> (snd (on_modified t e l) \<noteq> [] \<longrightarrow>
                 snd (on_modified t e l) = [Callback (src_path e)]
                 \<and> fst (on_modified t e l) = l(src_path e \<mapsto> t)))"
proof -
  have step: "on_modified t0 (file_event p) m = (m(p \<mapsto> t0), [Callback p])"
    using py first by (rule on_modified_accept)
  have entry: "(m(p \<mapsto> t0)) p = Some t0"
    by simp
  have unfold: "modified_events (map (\<lambda>t. (t, file_event p)) (t0 # ts)) m
      = (fst (modified_events (map (\<lambda>t. (t, file_event p)) ts) (m(p \<mapsto> t0))),
         Callback p # snd (modified_events (map (\<lambda>t. (t, file_event p)) ts) (m(p \<mapsto> t0))))"
    by (simp add: step split_beta)
  have burst: "(\<forall>t\<in>set ts. t - t0 < 1) \<longrightarrow>
      modified_events (map (\<lambda>t. (t, file_event p)) (t0 # ts)) m = (m(p \<mapsto> t0), [Callback p])"
  proof
    assume near: "\<forall>t\<in>set ts. t - t0 < 1"
    have "modified_events (map (\<lambda>t. (t, file_event p)) ts) (m(p \<mapsto> t0)) = (m(p \<mapsto> t0), [])"
      using entry near by (rule burst_discarded)
    then show
      "modified_events (map (\<lambda>t. (t, file_event p)) (t0 # ts)) m = (m(p \<mapsto> t0), [Callback p])"
      unfolding unfold by simp
  qed
  have apart: "spaced t0 ts \<longrightarrow>
      snd (modified_events (map (\<lambda>t. (t, file_event p)) (t0 # ts)) m)
        = replicate (Suc (length ts)) (Callback p)
      \<and> fst (modified_events (map (\<lambda>t. (t, file_event p)) (t0 # ts)) m) p
        = Some (last (t0 # ts))"
  proof
    assume sp: "spaced t0 ts"
    have "snd (modified_events (map (\<lambda>t. (t, file_event p)) ts) (m(p \<mapsto> t0)))
              = replicate (length ts) (Callback p)
          \<and> fst (modified_events (map (\<lambda>t. (t, file_event p)) ts) (m(p \<mapsto> t0))) p
              = Some (last (t0 # ts))"
      using py entry sp by (rule spaced_accepted)
    then show
      "snd (modified_events (map (\<lambda>t. (t, file_event p)) (t0 # ts)) m)
        = replicate (Suc (length ts)) (Callback p)
      \<and> fst (modified_events (map (\<lambda>t. (t, file_event p)) (t0 # ts)) m) p
        = Some (last (t0 # ts))"
      unfolding unfold by simp
  qed
  from burst apart on_modified_ledger on_modified_ledger_accept show ?thesis
    by blast
qed

theorem debounce_modified_witness:
  "endswith ''main.py'' ''.py'' \<and> accepts Map.empty ''main.py'' 10
   \<and> (51 / 5 :: real) - 10 < 1 \<and> (109 / 10 :: real) - 10 < 1
   \<and> modified_events (map (\<lambda>t. (t, file_event ''main.py'')) [10, 51 / 5, 109 / 10]) Map.empty
       = (Map.empty(''main.py'' \<mapsto> 10), [Callback ''main.py''])
   \<and> spaced 10 [23 / 2, 13]
   \<and> snd (modified_events (map (\<lambda>t. (t, file_event ''main.py'')) [10, 23 / 2, 13]) Map.empty)
       = [Callback ''main.py'', Callback ''main.py'', Callback ''main.py'']
   \<and> fst (modified_events (map (\<lambda>t. (t, file_event ''main.py'')) [10, 23 / 2, 13]) Map.empty)
         ''main.py'' = Some 13"
proof -
  have py: "endswith ''main.py'' ''.py''"
    by (simp add: endswith_def)
  have acc: "accepts Map.empty ''main.py'' 10"
    by (simp add: accepts_def)
  have near: "\<forall>t\<in>set [51 / 5, 109 / 10 :: real]. t - 10 < 1"
    by simp
  have sp: "spaced 10 [23 / 2, 13]"
    by simp
  from debounce_modified [OF py acc, of "[51 / 5, 109 / 10]"] near
  have burst: "modified_events (map (\<lambda>t. (t, file_event ''main.py'')) (10 # [51 / 5, 109 / 10]))
                 Map.empty = (Map.empty(''main.py'' \<mapsto> 10), [Callback ''main.py''])"
    by blast
  from debounce_modified [OF py acc, of "[23 / 2, 13]"] sp
  have apart: "snd (modified_events (map (\<lambda>t. (t, file_event ''main.py'')) (10 # [23 / 2, 13]))
                  Map.empty) = replicate (Suc (length [23 / 2, 13 :: real])) (Callback ''main.py'')
             \<and> fst (modified_events (map (\<lambda>t. (t, file_event ''main.py'')) (10 # [23 / 2, 13]))
                  Map.empty) ''main.py'' = Some (last (10 # [23 / 2, 13]))"
    by blast
  have three: "replicate (Suc (length [23 / 2, 13 :: real])) (Callback ''main.py'')
      = [Callback ''main.py'', Callback ''main.py'', Callback ''main.py'']"
    by simp
  have thirteen: "last (10 # [23 / 2, 13 :: real]) = 13"
    by simp
  have near1: "(51 / 5 :: real) - 10 < 1" and near2: "(109 / 10 :: real) - 10 < 1"
    by simp_all
  from py acc near1 near2 sp burst apart show ?thesis
    unfolding three thirteen by blast
qed

section \<open>Created events: proofs\<close>

lemma on_created_py:
  "endswith p ''.py'' \<Longrightarrow> on_created (file_event p) m = (m, [Sleep (1 / 10), Callback p])"
  by (simp add: on_created_def file_event_def)

lemma on_created_ledger: "fst (on_created e m) = m"
  by (simp add: on_created_def)

lemma on_created_blind: "snd (on_created e m) = snd (on_created e m')"
  by (simp add: on_created_def)

text \<open>
  C10, as the claim states it, fails: when the ledger holds an entry for the path that is
  less than a second old (the file was modified, deleted and created again), the
  "modified" event right after the creation is discarded, and the two handlers together
  make one callback, not two.
\<close>

theorem created_then_modified_counterexample:
  "snd (on_created (file_event ''main.py'') (Map.empty(''main.py'' \<mapsto> 10)))
     @ snd (on_modified (21 / 2) (file_event ''main.py'')
              (fst (on_created (file_event ''main.py'') (Map.empty(''main.py'' \<mapsto> 10)))))
   = [Sleep (1 / 10), Callback ''main.py'']"
  by (simp add: on_created_def on_modified_def file_event_def endswith_def)

text \<open>
  C10, amended. The handler of a "created" event on a path ending in \<^verbatim>\<open>.py\<close> sleeps
  0.1 s and makes its callback whatever the ledger holds, and returns the ledger unchanged
  (for every event and ledger). A "modified" event on the same path right after it is
  therefore decided exactly as if the creation had not happened: when the ledger holds no
  entry for the path less than a second old (in particular when it holds none, as for a
  new file), the event is accepted however soon after the creation it arrives, and the two
  handlers together make two callbacks; when the ledger holds an entry less than a second
  old, the event is discarded, the ledger stays as it was and only the callback of the
  creation is made.
\<close>

theorem created_then_modified:
  assumes py: "endswith p ''.py''"
  shows "on_created (file_event p) m = (m, [Sleep (1 / 10), Callback p])
       \<and> (\<forall>e l l'. fst (on_created e l) = l \<and> snd (on_created e l) = snd (on_created e l'))
       \<and> on_modified t (file_event p) (fst (on_created (file_event p) m))
           = on_modified t (file_event p) m
       \<and> (accepts m p t \<longrightarrow>
            snd (on_created (file_event p) m)
              @ snd (on_modified t (file_event p) (fst (on_created (file_event p) m)))
            = [Sleep (1 / 10), Callback p, Callback p])
       \<and> (m p = None \<longrightarrow> accepts m p t)
       \<and> (m p = Some t0 \<and> t - t0 < 1 \<longrightarrow>
            snd (on_created (file_event p) m)
              @ snd (on_modified t (file_event p) (fst (on_created (file_event p) m)))
            = [Sleep (1 / 10), Callback p]
            \<and> fst (on_modified t (file_event p) (fst (on_created (file_event p) m))) = m)"
proof -
  have created: "on_created (file_event p) m = (m, [Sleep (1 / 10), Callback p])"
    using py by (rule on_created_py)
  have blind: "\<forall>e l l'. fst (on_created e l) = l \<and> snd (on_created e l) = snd (on_created e l')"
    using on_created_ledger on_created_blind by blast
  have same: "on_modified t (file_event p) (fst (on_created (file_event p) m))
      = on_modified t (file_event p) m"
    by (simp add: created)
  have second: "accepts m p t \<longrightarrow>
      snd (on_created (file_event p) m)
        @ snd (on_modified t (file_event p) (fst (on_created (file_event p) m)))
      = [Sleep (1 / 10), Callback p, Callback p]"
    using py by (simp add: created on_modified_accept)
  have fresh: "m p = None \<longrightarrow> accepts m p t"
    by (simp add: accepts_def)
  have recent: "m p = Some t0 \<and> t - t0 < 1 \<longrightarrow>
      snd (on_created (file_event p) m)
        @ snd (on_modified t (file_event p) (fst (on_created (file_event p) m)))
      = [Sleep (1 / 10), Callback p]
      \<and> fst (on_modified t (file_event p) (fst (on_created (file_event p) m))) = m"
    by (simp add: created on_modified_discard)
  from created blind same second fresh recent show ?thesis
    by blast
qed

theorem created_then_modified_witness:
  "endswith ''boot.py'' ''.py'' \<and> accepts Map.empty ''boot.py'' (1 / 5)
   \<and> snd (on_created (file_event ''boot.py'') Map.empty)
        @ snd (on_modified (1 / 5) (file_event ''boot.py'')
                 (fst (on_created (file_event ''boot.py'') Map.empty)))
      = [Sleep (1 / 10), Callback ''boot.py'', Callback ''boot.py'']
   \<and> (Map.empty(''boot.py'' \<mapsto> 10 :: real)) ''boot.py'' = Some 10 \<and> (21 / 2 :: real) - 10 < 1
   \<and> snd (on_created (file_event ''boot.py'') (Map.empty(''boot.py'' \<mapsto> 10)))
        @ snd (on_modified (21 / 2) (file_event ''boot.py'')
                 (fst (on_created (file_event ''boot.py'') (Map.empty(''boot.py'' \<mapsto> 10)))))
      = [Sleep (1 / 10), Callback ''boot.py'']"
proof -
  have py: "endswith ''boot.py'' ''.py''"
    by (simp add: endswith_def)
  have acc: "accepts Map.empty ''boot.py'' (1 / 5)"
    by (simp add: accepts_def)
  have entry: "(Map.empty(''boot.py'' \<mapsto> 10 :: real)) ''boot.py'' = Some 10"
    by simp
  have near: "(21 / 2 :: real) - 10 < 1"
    by simp
  from created_then_modified [OF py, of Map.empty "1 / 5"] acc
  have two: "snd (on_created (file_event ''boot.py'') Map.empty)
        @ snd (on_modified (1 / 5) (file_event ''boot.py'')
                 (fst (on_created (file_event ''boot.py'') Map.empty)))
      = [Sleep (1 / 10), Callback ''boot.py'', Callback ''boot.py'']"
    by blast
  from created_then_modified [OF py, of "Map.empty(''boot.py'' \<mapsto> 10)" "21 / 2" 10]
    entry near
  have one: "snd (on_created (file_event ''boot.py'') (Map.empty(''boot.py'' \<mapsto> 10)))
        @ snd (on_modified (21 / 2) (file_event ''boot.py'')
                 (fst (on_created (file_event ''boot.py'') (Map.empty(''boot.py'' \<mapsto> 10)))))
      = [Sleep (1 / 10), Callback ''boot.py'']"
    by blast
  from py acc two entry near one show ?thesis
    by blast
qed

section \<open>Device Presence Monitor: proofs\<close>

lemma poll_at_most_two: "length (transitions (snd (poll inp s))) \<le> 2"
  by (simp add: poll_def poll_body_def Let_def split: sum.splits option.splits)

lemma poll_one_bootloader_event:
  "length (filter is_bootloader_event (transitions (snd (poll inp s)))) \<le> 1"
  by (simp add: poll_def poll_body_def Let_def is_bootloader_event_def
      split: sum.splits option.splits)

lemma poll_one_serial_event:
  "length (filter is_serial_event (transitions (snd (poll inp s)))) \<le> 1"
  by (simp add: poll_def poll_body_def Let_def is_serial_event_def
      split: sum.splits option.splits)

lemma poll_no_bootloader_lost: "BootloaderLost \<notin> set (transitions (snd (poll inp s)))"
  by (simp add: poll_def poll_body_def Let_def split: sum.splits option.splits)

lemma poll_records:
  "bootsel_scan inp = Inr b \<Longrightarrow> comports inp = Inr ps \<Longrightarrow>
   bootsel_detected (fst (poll inp s)) = truthy b
   \<and> pico_connected (fst (poll inp s)) = truthy (find_pico_port ps)"
  by (simp add: poll_def poll_body_def Let_def)

lemma poll_same_state:
  "bootsel_scan inp = Inr b \<Longrightarrow> comports inp = Inr ps \<Longrightarrow>
   bootsel_detected s = truthy b \<Longrightarrow> pico_connected s = truthy (find_pico_port ps) \<Longrightarrow>
   poll inp s = (s, [])"
  by (simp add: poll_def poll_body_def Let_def)

lemma poll_twice: "transitions (snd (poll inp (fst (poll inp s)))) = []"
  by (simp add: poll_def poll_body_def Let_def split: sum.splits option.splits)

lemma poll_bootsel_raises:
  "bootsel_scan inp = Inl e \<Longrightarrow> poll inp s = (s, [UsbMonitoringError e])"
  by (simp add: poll_def poll_body_def)

lemma poll_comports_raises:
  "bootsel_scan inp = Inr b \<Longrightarrow> comports inp = Inl e \<Longrightarrow>
   pico_connected (fst (poll inp s)) = pico_connected s
   \<and> current_port (fst (poll inp s)) = current_port s
   \<and> filter is_serial_event (transitions (snd (poll inp s))) = []
   \<and> snd (poll inp s) \<noteq> [] \<and> last (snd (poll inp s)) = UsbMonitoringError e"
  by (simp add: poll_def poll_body_def Let_def is_serial_event_def split: option.splits)

lemma monitor_usb_length: "length (snd (monitor_usb script s)) = length script"
  by (induction script arbitrary: s) (simp_all add: split_beta)

lemma monitor_usb_append:
  "monitor_usb (before @ rest) s =
     (fst (monitor_usb rest (fst (monitor_usb before s))),
      snd (monitor_usb before s) @ snd (monitor_usb rest (fst (monitor_usb before s))))"
  by (induction before arbitrary: s) (simp_all add: split_beta)

lemma scripted_sequence:
  assumes "d \<noteq> []" and "truthy (find_pico_port ports)"
  shows "concat (map transitions (snd (monitor_usb
        [no_device, bootloader_at d, no_device, serial_ports ports] initial_state)))
     = [BootloaderDetected d, Connected]"
  using assms
  by (simp add: poll_def poll_body_def Let_def initial_state_def truthy_def
      no_device_def bootloader_at_def serial_ports_def)

text \<open>
  C1, as the claim states it, fails: a tick that finds both the bootloader drive and a
  serial port schedules two callbacks, and the sequence no device, bootloader drive, no
  device, serial port schedules \<open>BootloaderDetected\<close> and \<open>Connected\<close> only.
\<close>

theorem one_event_per_poll_counterexample:
  "transitions (snd (poll \<lparr>bootsel_scan = Inr (Some ''/media/pi/RPI-RP2''),
                            comports = Inr [acm0]\<rparr> initial_state))
     = [BootloaderDetected ''/media/pi/RPI-RP2'', Connected]
   \<and> \<not> length (transitions (snd (poll \<lparr>bootsel_scan = Inr (Some ''/media/pi/RPI-RP2''),
                            comports = Inr [acm0]\<rparr> initial_state))) \<le> 1
   \<and> concat (map transitions (snd (monitor_usb
        [no_device, bootloader_at ''/media/pi/RPI-RP2'', no_device, serial_ports [acm0]]
        initial_state)))
     = [BootloaderDetected ''/media/pi/RPI-RP2'', Connected]
   \<and> concat (map transitions (snd (monitor_usb
        [no_device, bootloader_at ''/media/pi/RPI-RP2'', no_device, serial_ports [acm0]]
        initial_state)))
     \<noteq> [BootloaderDetected ''/media/pi/RPI-RP2'', BootloaderLost, Connected]"
  by code_simp

text \<open>
  C1, amended. In every tick and from every state: at most two callbacks are scheduled, at
  most one of them for the bootloader signal and at most one for the serial signal, and
  never \<open>BootloaderLost\<close> (losing the drive only resets the flag). A tick whose two
  enumerations return leaves the flags equal to what it found, and a tick that finds what
  the flags already record schedules nothing and changes nothing; polling the same input
  a second time schedules nothing. The sequence no device, bootloader drive \<open>d\<close>, no
  device, a port list with a Pico schedules exactly \<open>BootloaderDetected d\<close>, then
  \<open>Connected\<close>.
\<close>

theorem monitor_transitions:
  "length (transitions (snd (poll inp s))) \<le> 2
   \<and> length (filter is_bootloader_event (transitions (snd (poll inp s)))) \<le> 1
   \<and> length (filter is_serial_event (transitions (snd (poll inp s)))) \<le> 1
   \<and> BootloaderLost \<notin> set (transitions (snd (poll inp s)))
   \<and> (bootsel_scan inp = Inr b \<and> comports inp = Inr ps \<longrightarrow>
        bootsel_detected (fst (poll inp s)) = truthy b
        \<and> pico_connected (fst (poll inp s)) = truthy (find_pico_port ps))
   \<and> (bootsel_scan inp = Inr b \<and> comports inp = Inr ps
        \<and> bootsel_detected s = truthy b \<and> pico_connected s = truthy (find_pico_port ps) \<longrightarrow>
        poll inp s = (s, []))
   \<and> transitions (snd (poll inp (fst (poll inp s)))) = []
   \<and> (d \<noteq> [] \<and> truthy (find_pico_port ports) \<longrightarrow>
        concat (map transitions (snd (monitor_usb
          [no_device, bootloader_at d, no_device, serial_ports ports] initial_state)))
        = [BootloaderDetected d, Connected])"
  using poll_at_most_two [of inp s] poll_one_bootloader_event [of inp s]
    poll_one_serial_event [of inp s] poll_no_bootloader_lost [of inp s]
    poll_records [of inp b ps s] poll_same_state [of inp b ps s] poll_twice [of inp s]
    scripted_sequence [of d ports]
  by blast

theorem monitor_transitions_witness:
  "bootsel_scan no_device = Inr None \<and> comports no_device = Inr []
   \<and> bootsel_detected initial_state = truthy None
   \<and> pico_connected initial_state = truthy (find_pico_port [])
   \<and> ''/media/pi/RPI-RP2'' \<noteq> [] \<and> truthy (find_pico_port [acm0])
   \<and> poll no_device initial_state = (initial_state, [])
   \<and> concat (map transitions (snd (monitor_usb
        [no_device, bootloader_at ''/media/pi/RPI-RP2'', no_device, serial_ports [acm0]]
        initial_state)))
      = [BootloaderDetected ''/media/pi/RPI-RP2'', Connected]"
proof -
  have h1: "bootsel_scan no_device = Inr None" and h2: "comports no_device = Inr []"
    by (simp_all add: no_device_def)
  have h3: "bootsel_detected initial_state = truthy None"
    and h4: "pico_connected initial_state = truthy (find_pico_port [])"
    by (simp_all add: initial_state_def truthy_def)
  have h5: "''/media/pi/RPI-RP2'' \<noteq> []"
    by simp
  have h6: "truthy (find_pico_port [acm0])"
    by code_simp
  from monitor_transitions [of no_device initial_state None "[]" "''/media/pi/RPI-RP2''" "[acm0]"]
    h1 h2 h3 h4 h5 h6
  have "poll no_device initial_state = (initial_state, [])
    \<and> concat (map transitions (snd (monitor_usb
        [no_device, bootloader_at ''/media/pi/RPI-RP2'', no_device, serial_ports [acm0]]
        initial_state)))
      = [BootloaderDetected ''/media/pi/RPI-RP2'', Connected]"
    by blast
  with h1 h2 h3 h4 h5 h6 show ?thesis
    by blast
qed

text \<open>
  C8, as the claim states it, fails: with a Pico recorded as connected, a tick whose
  enumeration raises schedules no callback and leaves the Pico recorded as connected,
  where a tick that finds no device schedules \<open>Disconnected\<close>.
\<close>

theorem failed_poll_counterexample:
  "pico_connected (fst (poll (serial_ports [acm0]) initial_state))
   \<and> poll \<lparr>bootsel_scan = Inl OSError, comports = Inr []\<rparr>
        (fst (poll (serial_ports [acm0]) initial_state))
      = (fst (poll (serial_ports [acm0]) initial_state), [UsbMonitoringError OSError])
   \<and> poll \<lparr>bootsel_scan = Inr None, comports = Inl OSError\<rparr>
        (fst (poll (serial_ports [acm0]) initial_state))
      = (fst (poll (serial_ports [acm0]) initial_state), [UsbMonitoringError OSError])
   \<and> transitions (snd (poll no_device (fst (poll (serial_ports [acm0]) initial_state))))
      = [Disconnected]"
  by code_simp

text \<open>
  C8, amended. When \<^verbatim>\<open>find_bootsel_drive\<close> raises, the tick logs the error and does nothing
  else: the state is unchanged, no callback is scheduled, and the loop runs the remaining
  ticks from that unchanged state. When the port listing raises, the tick logs the error
  last, schedules no serial callback and leaves \<open>pico_connected\<close> and \<open>current_port\<close>
  as they were. The loop runs one iteration for every tick of the script, failed or not.
\<close>

theorem failed_poll:
  "(bootsel_scan inp = Inl e \<longrightarrow>
      poll inp s = (s, [UsbMonitoringError e])
      \<and> monitor_usb (inp # rest) s
          = (fst (monitor_usb rest s), [UsbMonitoringError e] # snd (monitor_usb rest s)))
   \<and> (bootsel_scan inp = Inr b \<and> comports inp = Inl e \<longrightarrow>
        pico_connected (fst (poll inp s)) = pico_connected s
        \<and> current_port (fst (poll inp s)) = current_port s
        \<and> filter is_serial_event (transitions (snd (poll inp s))) = []
        \<and> snd (poll inp s) \<noteq> [] \<and> last (snd (poll inp s)) = UsbMonitoringError e)
   \<and> length (snd (monitor_usb script s)) = length script"
proof -
  have skip: "bootsel_scan inp = Inl e \<longrightarrow>
      poll inp s = (s, [UsbMonitoringError e])
      \<and> monitor_usb (inp # rest) s
          = (fst (monitor_usb rest s), [UsbMonitoringError e] # snd (monitor_usb rest s))"
    by (simp add: poll_bootsel_raises split_beta)
  from skip poll_comports_raises [of inp b e s] monitor_usb_length [of script s]
  show ?thesis
    by blast
qed

theorem failed_poll_witness:
  "bootsel_scan \<lparr>bootsel_scan = Inl OSError, comports = Inr [acm0]\<rparr> = Inl OSError
   \<and> poll \<lparr>bootsel_scan = Inl OSError, comports = Inr [acm0]\<rparr> initial_state
       = (initial_state, [UsbMonitoringError OSError])
   \<and> monitor_usb [\<lparr>bootsel_scan = Inl OSError, comports = Inr [acm0]\<rparr>, no_device] initial_state
       = (fst (monitor_usb [no_device] initial_state),
          [UsbMonitoringError OSError] # snd (monitor_usb [no_device] initial_state))
   \<and> bootsel_scan \<lparr>bootsel_scan = Inr None, comports = Inl OSError\<rparr> = Inr None
   \<and> comports \<lparr>bootsel_scan = Inr None, comports = Inl OSError\<rparr> = Inl OSError
   \<and> pico_connected (fst (poll \<lparr>bootsel_scan = Inr None, comports = Inl OSError\<rparr> acm0_connected))
       = pico_connected acm0_connected
   \<and> filter is_serial_event
         (transitions (snd (poll \<lparr>bootsel_scan = Inr None, comports = Inl OSError\<rparr> acm0_connected)))
       = []
   \<and> last (snd (poll \<lparr>bootsel_scan = Inr None, comports = Inl OSError\<rparr> acm0_connected))
       = UsbMonitoringError OSError"
proof -
  have h1: "bootsel_scan \<lparr>bootsel_scan = Inl OSError, comports = Inr [acm0]\<rparr> = Inl OSError"
    by simp
  have h2: "bootsel_scan \<lparr>bootsel_scan = Inr None, comports = Inl OSError\<rparr> = Inr None"
    and h3: "comports \<lparr>bootsel_scan = Inr None, comports = Inl OSError\<rparr> = Inl OSError"
    by simp_all
  from failed_poll [of "\<lparr>bootsel_scan = Inl OSError, comports = Inr [acm0]\<rparr>" OSError
      initial_state "[no_device]"] h1
  have a: "poll \<lparr>bootsel_scan = Inl OSError, comports = Inr [acm0]\<rparr> initial_state
       = (initial_state, [UsbMonitoringError OSError])
     \<and> monitor_usb [\<lparr>bootsel_scan = Inl OSError, comports = Inr [acm0]\<rparr>, no_device] initial_state
       = (fst (monitor_usb [no_device] initial_state),
          [UsbMonitoringError OSError] # snd (monitor_usb [no_device] initial_state))"
    by blast
  from failed_poll [of "\<lparr>bootsel_scan = Inr None, comports = Inl OSError\<rparr>" OSError
      acm0_connected _ None] h2 h3
  have b: "pico_connected (fst (poll \<lparr>bootsel_scan = Inr None, comports = Inl OSError\<rparr> acm0_connected))
       = pico_connected acm0_connected
     \<and> filter is_serial_event
         (transitions (snd (poll \<lparr>bootsel_scan = Inr None, comports = Inl OSError\<rparr> acm0_connected)))
       = []
     \<and> last (snd (poll \<lparr>bootsel_scan = Inr None, comports = Inl OSError\<rparr> acm0_connected))
       = UsbMonitoringError OSError"
    by blast
  from h1 h2 h3 a b show ?thesis
    by blast
qed

section \<open>Sync Dispatcher: proofs\<close>

lemma subprocess_run_exits:
  "exits p \<Longrightarrow> subprocess_run None True p \<noteq> None"
  by (cases p) (simp_all add: exits_def)

lemma sync_files_step:
  "connected_at env i \<Longrightarrow> exits (copy_process env i) \<Longrightarrow>
   sync_files env i (filepath # rest) =
     (case sync_files env (Suc i) rest of
        None \<Rightarrow> None
      | Some (out, raised) \<Rightarrow> Some (file_result (copy_process env i) filepath @ out, raised))"
  by (cases "copy_process env i")
     (simp_all add: exits_def file_result_def split: option.splits)

lemma sync_files_prefix:
  "\<forall>j<length pre. connected_at env (i + j) \<and> exits (copy_process env (i + j)) \<Longrightarrow>
   sync_files env i (pre @ rest) =
     (case sync_files env (i + length pre) rest of
        None \<Rightarrow> None
      | Some (out, raised) \<Rightarrow> Some (attempted env i pre @ out, raised))"
proof (induction pre arbitrary: i)
  case Nil
  show ?case by (simp split: option.splits)
next
  case (Cons filepath pre)
  from Cons.prems have here: "connected_at env i" "exits (copy_process env i)"
    by auto
  from Cons.prems
  have later: "\<forall>j<length pre. connected_at env (Suc i + j) \<and> exits (copy_process env (Suc i + j))"
    by auto
  have step: "sync_files env i (filepath # (pre @ rest)) =
     (case sync_files env (Suc i) (pre @ rest) of
        None \<Rightarrow> None
      | Some (out, raised) \<Rightarrow> Some (file_result (copy_process env i) filepath @ out, raised))"
    using here by (rule sync_files_step)
  show ?case
    using Cons.IH [OF later] step by (simp split: option.splits)
qed

lemma sync_files_all:
  "\<forall>j<length files. connected_at env j \<and> exits (copy_process env j) \<Longrightarrow>
   sync_files env 0 files = Some (attempted env 0 files, None)"
  using sync_files_prefix [of files env 0 "[]"] by simp

lemma sync_files_break:
  assumes k: "k < length files"
    and before: "\<forall>j<k. connected_at env j \<and> exits (copy_process env j)"
    and gone: "\<not> connected_at env k"
  shows "sync_files env 0 files = Some (attempted env 0 (take k files), None)"
proof -
  define pre where "pre = take k files"
  from k obtain filepath rest where rest: "drop k files = filepath # rest"
    by (cases "drop k files") auto
  from k have len: "length pre = k"
    by (simp add: pre_def)
  have split: "files = pre @ filepath # rest"
    using rest by (simp add: pre_def flip: rest)
  have stop: "sync_files env (0 + length pre) (filepath # rest) = Some ([], None)"
    using gone by (simp add: len)
  have ok: "\<forall>j<length pre. connected_at env (0 + j) \<and> exits (copy_process env (0 + j))"
    using before by (simp add: len)
  have "sync_files env 0 (pre @ filepath # rest) =
     (case sync_files env (0 + length pre) (filepath # rest) of
        None \<Rightarrow> None
      | Some (out, raised) \<Rightarrow> Some (attempted env 0 pre @ out, raised))"
    using ok by (rule sync_files_prefix)
  then have "sync_files env 0 files = Some (attempted env 0 pre, None)"
    unfolding stop split by simp
  then show ?thesis
    by (simp add: pre_def)
qed

lemma runs_append: "runs (xs @ ys) = runs xs @ runs ys"
  by (induction xs rule: runs.induct) simp_all

lemma logs_append: "logs (xs @ ys) = logs xs @ logs ys"
  by (induction xs rule: logs.induct) simp_all

lemma runs_file_result:
  "runs (file_result p filepath) = [(cp_argv filepath (basename filepath), None)]"
  by (cases p) (simp_all add: file_result_def)

lemma length_logs_file_result: "length (logs (file_result p filepath)) = 1"
  by (cases p) (simp_all add: file_result_def)

lemma runs_attempted:
  "runs (attempted env i files) = map (\<lambda>filepath. (cp_argv filepath (basename filepath), None)) files"
  by (induction files arbitrary: i) (simp_all add: runs_append runs_file_result)

lemma length_logs_attempted: "length (logs (attempted env i files)) = length files"
  by (induction files arbitrary: i) (simp_all add: logs_append length_logs_file_result)

lemma three_files_listed:
  "list_files no_glob [] three_files ''/home/u/proj''
     = Inr [''/home/u/proj/boot.py'', ''/home/u/proj/main.py'', ''/home/u/proj/util.py'']"
  by (simp add: list_files_def config_get_def three_files_def path_join_def endswith_def)

lemma sync_directory_complete:
  assumes entry: "connected_on_entry env"
    and files: "list_files glob cfg tree directory = Inr files"
    and loop: "sync_files env 0 files = Some (out, None)"
  shows "sync_directory glob cfg tree env directory
     = Some (out @ [Log INFO (DirectorySyncComplete (length files)), RefreshFiles])"
  using entry by (simp add: sync_directory_def files loop)

lemma sync_files_abort:
  assumes k: "k < length files"
    and before: "\<forall>j<k. connected_at env j \<and> exits (copy_process env j)"
    and here: "connected_at env k"
    and raised: "subprocess_run None True (copy_process env k) = Some (Inl e)"
    and other: "e \<noteq> CalledProcessError"
  shows "sync_files env 0 files
     = Some (attempted env 0 (take k files)
             @ [Run (cp_argv (files ! k) (basename (files ! k))) None], Some e)"
proof -
  define pre where "pre = take k files"
  from k obtain filepath rest where rest: "drop k files = filepath # rest"
    by (cases "drop k files") auto
  from k have len: "length pre = k"
    by (simp add: pre_def)
  have split: "files = pre @ filepath # rest"
    using rest by (simp add: pre_def flip: rest)
  have kth: "files ! k = filepath"
    using len by (simp add: split nth_append)
  have stop: "sync_files env (0 + length pre) (filepath # rest)
      = Some ([Run (cp_argv filepath (basename filepath)) None], Some e)"
    using here raised other by (simp add: len)
  have ok: "\<forall>j<length pre. connected_at env (0 + j) \<and> exits (copy_process env (0 + j))"
    using before by (simp add: len)
  have "sync_files env 0 (pre @ filepath # rest) =
     (case sync_files env (0 + length pre) (filepath # rest) of
        None \<Rightarrow> None
      | Some (out, raised) \<Rightarrow> Some (attempted env 0 pre @ out, raised))"
    using ok by (rule sync_files_prefix)
  then have "sync_files env 0 files
      = Some (attempted env 0 pre @ [Run (cp_argv filepath (basename filepath)) None], Some e)"
    unfolding stop split by simp
  then show ?thesis
    by (simp add: pre_def kth)
qed

lemma sync_directory_abort:
  assumes entry: "connected_on_entry env"
    and files: "list_files glob cfg tree directory = Inr files"
    and k: "k < length files"
    and before: "\<forall>j<k. connected_at env j \<and> exits (copy_process env j)"
    and here: "connected_at env k"
    and raised: "subprocess_run None True (copy_process env k) = Some (Inl e)"
    and other: "e \<noteq> CalledProcessError"
  shows "sync_directory glob cfg tree env directory
     = Some (attempted env 0 (take k files)
             @ [Run [''mpremote'', ''connect'', ''auto'', ''cp'', files ! k,
                     '':'' @ basename (files ! k)] None,
                Log ERROR (DirectorySyncError e)])"
  using entry sync_files_abort [OF k before here raised other]
  by (simp add: sync_directory_def files cp_argv_def)

lemma runs_attempted_argv:
  "runs (attempted env i files)
     = map (\<lambda>filepath. ([''mpremote'', ''connect'', ''auto'', ''cp'', filepath,
                           '':'' @ basename filepath], None)) files"
  by (simp add: runs_attempted cp_argv_def)

text \<open>
  C6, as the claim states it, fails: in a batch of three files whose second copy process
  cannot be started, the third file is never attempted and no completion entry is logged;
  the batch ends with the error entry of the handler around the whole batch. A copy whose
  output cannot be decoded ends the batch in the same way.
\<close>

theorem batch_abort_counterexample:
  "sync_directory no_glob [] three_files middle_cannot_start ''/home/u/proj''
     = Some [Run [''mpremote'', ''connect'', ''auto'', ''cp'', ''/home/u/proj/boot.py'',
                  '':boot.py''] None,
             Log SUCCESS (Synced ''boot.py''),
             Run [''mpremote'', ''connect'', ''auto'', ''cp'', ''/home/u/proj/main.py'',
                  '':main.py''] None,
             Log ERROR (DirectorySyncError OSError)]
   \<and> sync_directory no_glob [] three_files first_undecodable ''/home/u/proj''
     = Some [Run [''mpremote'', ''connect'', ''auto'', ''cp'', ''/home/u/proj/boot.py'',
                  '':boot.py''] None,
             Log ERROR (DirectorySyncError UnicodeDecodeError)]"
  by code_simp

text \<open>
  C6, amended. With the flag \<^verbatim>\<open>pico_connected\<close> set at every check: when every copy
  process is started and exits with output that can be decoded, whatever its return code,
  the batch calls \<^verbatim>\<open>mpremote connect auto cp\<close> once for every listed file, in order, each
  call followed by the log entry of its own outcome (\<open>Synced\<close> for return code 0,
  \<open>FailedToSync\<close> otherwise), and ends with the completion entry that carries the number
  of listed files. When the call for file \<open>k\<close> raises an exception other than
  \<^verbatim>\<open>CalledProcessError\<close>, the batch ends there: after the calls and entries of the first
  \<open>k\<close> files it makes the call for file \<open>k\<close> and logs the directory sync error; no later
  file is attempted and no completion entry is logged.
\<close>

theorem batch_failures:
  assumes entry: "connected_on_entry env"
    and files: "list_files glob cfg tree directory = Inr files"
  shows "((\<forall>j<length files. connected_at env j \<and> exits (copy_process env j)) \<longrightarrow>
            sync_directory glob cfg tree env directory
              = Some (attempted env 0 files
                      @ [Log INFO (DirectorySyncComplete (length files)), RefreshFiles])
            \<and> runs (attempted env 0 files)
                = map (\<lambda>filepath. ([''mpremote'', ''connect'', ''auto'', ''cp'', filepath,
                                      '':'' @ basename filepath], None)) files
            \<and> length (logs (attempted env 0 files)) = length files)
       \<and> (k < length files \<and> (\<forall>j<k. connected_at env j \<and> exits (copy_process env j))
            \<and> connected_at env k
            \<and> subprocess_run None True (copy_process env k) = Some (Inl e)
            \<and> e \<noteq> CalledProcessError \<longrightarrow>
            sync_directory glob cfg tree env directory
              = Some (attempted env 0 (take k files)
                      @ [Run [''mpremote'', ''connect'', ''auto'', ''cp'', files ! k,
                              '':'' @ basename (files ! k)] None,
                         Log ERROR (DirectorySyncError e)]))"
proof -
  have continue: "(\<forall>j<length files. connected_at env j \<and> exits (copy_process env j)) \<longrightarrow>
            sync_directory glob cfg tree env directory
              = Some (attempted env 0 files
                      @ [Log INFO (DirectorySyncComplete (length files)), RefreshFiles])
            \<and> runs (attempted env 0 files)
                = map (\<lambda>filepath. ([''mpremote'', ''connect'', ''auto'', ''cp'', filepath,
                                      '':'' @ basename filepath], None)) files
            \<and> length (logs (attempted env 0 files)) = length files"
  proof
    assume each: "\<forall>j<length files. connected_at env j \<and> exits (copy_process env j)"
    have "sync_files env 0 files = Some (attempted env 0 files, None)"
      using each by (rule sync_files_all)
    with entry files have "sync_directory glob cfg tree env directory
        = Some (attempted env 0 files
                @ [Log INFO (DirectorySyncComplete (length files)), RefreshFiles])"
      by (rule sync_directory_complete)
    then show "sync_directory glob cfg tree env directory
              = Some (attempted env 0 files
                      @ [Log INFO (DirectorySyncComplete (length files)), RefreshFiles])
            \<and> runs (attempted env 0 files)
                = map (\<lambda>filepath. ([''mpremote'', ''connect'', ''auto'', ''cp'', filepath,
                                      '':'' @ basename filepath], None)) files
            \<and> length (logs (attempted env 0 files)) = length files"
      by (simp add: runs_attempted_argv length_logs_attempted)
  qed
  from continue sync_directory_abort [OF entry files, of k e] show ?thesis
    by blast
qed


theorem batch_failures_witness:
  "connected_on_entry middle_fails
   \<and> list_files no_glob [] three_files ''/home/u/proj''
       = Inr [''/home/u/proj/boot.py'', ''/home/u/proj/main.py'', ''/home/u/proj/util.py'']
   \<and> connected_at middle_fails 0 \<and> exits (copy_process middle_fails 0)
   \<and> connected_at middle_fails 1 \<and> exits (copy_process middle_fails 1)
   \<and> connected_at middle_fails 2 \<and> exits (copy_process middle_fails 2)
   \<and> sync_directory no_glob [] three_files middle_fails ''/home/u/proj''
       = Some [Run [''mpremote'', ''connect'', ''auto'', ''cp'', ''/home/u/proj/boot.py'',
                    '':boot.py''] None,
               Log SUCCESS (Synced ''boot.py''),
               Run [''mpremote'', ''connect'', ''auto'', ''cp'', ''/home/u/proj/main.py'',
                    '':main.py''] None,
               Log ERROR (FailedToSync ''main.py''),
               Run [''mpremote'', ''connect'', ''auto'', ''cp'', ''/home/u/proj/util.py'',
                    '':util.py''] None,
               Log SUCCESS (Synced ''util.py''),
               Log INFO (DirectorySyncComplete 3), RefreshFiles]
   \<and> connected_on_entry middle_cannot_start
   \<and> (1::nat) < length [''/home/u/proj/boot.py'', ''/home/u/proj/main.py'', ''/home/u/proj/util.py'']
   \<and> connected_at middle_cannot_start 0 \<and> exits (copy_process middle_cannot_start 0)
   \<and> connected_at middle_cannot_start 1
   \<and> subprocess_run None True (copy_process middle_cannot_start 1) = Some (Inl OSError)
   \<and> OSError \<noteq> CalledProcessError
   \<and> sync_directory no_glob [] three_files middle_cannot_start ''/home/u/proj''
       = Some [Run [''mpremote'', ''connect'', ''auto'', ''cp'', ''/home/u/proj/boot.py'',
                    '':boot.py''] None,
               Log SUCCESS (Synced ''boot.py''),
               Run [''mpremote'', ''connect'', ''auto'', ''cp'', ''/home/u/proj/main.py'',
                    '':main.py''] None,
               Log ERROR (DirectorySyncError OSError)]"
proof -
  let ?files = "[''/home/u/proj/boot.py'', ''/home/u/proj/main.py'', ''/home/u/proj/util.py'']"
  have entry: "connected_on_entry middle_fails"
    by (simp add: middle_fails_def)
  have each: "\<forall>j<length ?files.
      connected_at middle_fails j \<and> exits (copy_process middle_fails j)"
    by (simp add: middle_fails_def exits_def)
  have single: "connected_at middle_fails 0 \<and> exits (copy_process middle_fails 0)
     \<and> connected_at middle_fails 1 \<and> exits (copy_process middle_fails 1)
     \<and> connected_at middle_fails 2 \<and> exits (copy_process middle_fails 2)"
    by (simp add: middle_fails_def exits_def)
  have what: "attempted middle_fails 0 ?files
      @ [Log INFO (DirectorySyncComplete (length ?files)), RefreshFiles]
    = [Run [''mpremote'', ''connect'', ''auto'', ''cp'', ''/home/u/proj/boot.py'',
            '':boot.py''] None,
       Log SUCCESS (Synced ''boot.py''),
       Run [''mpremote'', ''connect'', ''auto'', ''cp'', ''/home/u/proj/main.py'',
            '':main.py''] None,
       Log ERROR (FailedToSync ''main.py''),
       Run [''mpremote'', ''connect'', ''auto'', ''cp'', ''/home/u/proj/util.py'',
            '':util.py''] None,
       Log SUCCESS (Synced ''util.py''),
       Log INFO (DirectorySyncComplete 3), RefreshFiles]"
    by (simp add: middle_fails_def file_result_def basename_def cp_argv_def)
  from batch_failures [OF entry three_files_listed] each
  have "sync_directory no_glob [] three_files middle_fails ''/home/u/proj''
      = Some (attempted middle_fails 0 ?files
              @ [Log INFO (DirectorySyncComplete (length ?files)), RefreshFiles])"
    by blast
  then have continued: "sync_directory no_glob [] three_files middle_fails ''/home/u/proj''
       = Some [Run [''mpremote'', ''connect'', ''auto'', ''cp'', ''/home/u/proj/boot.py'',
                    '':boot.py''] None,
               Log SUCCESS (Synced ''boot.py''),
               Run [''mpremote'', ''connect'', ''auto'', ''cp'', ''/home/u/proj/main.py'',
                    '':main.py''] None,
               Log ERROR (FailedToSync ''main.py''),
               Run [''mpremote'', ''connect'', ''auto'', ''cp'', ''/home/u/proj/util.py'',
                    '':util.py''] None,
               Log SUCCESS (Synced ''util.py''),
               Log INFO (DirectorySyncComplete 3), RefreshFiles]"
    unfolding what .
  have entry2: "connected_on_entry middle_cannot_start"
    by (simp add: middle_cannot_start_def)
  have k: "(1::nat) < length ?files"
    by simp
  have before: "\<forall>j<1. connected_at middle_cannot_start j
      \<and> exits (copy_process middle_cannot_start j)"
    by (simp add: middle_cannot_start_def exits_def)
  have first: "connected_at middle_cannot_start 0 \<and> exits (copy_process middle_cannot_start 0)"
    by (simp add: middle_cannot_start_def exits_def)
  have here: "connected_at middle_cannot_start 1"
    by (simp add: middle_cannot_start_def)
  have raised: "subprocess_run None True (copy_process middle_cannot_start 1) = Some (Inl OSError)"
    by (simp add: middle_cannot_start_def)
  have other: "OSError \<noteq> CalledProcessError"
    by simp
  have what2: "attempted middle_cannot_start 0 (take 1 ?files)
      @ [Run [''mpremote'', ''connect'', ''auto'', ''cp'', ?files ! 1,
              '':'' @ basename (?files ! 1)] None,
         Log ERROR (DirectorySyncError OSError)]
    = [Run [''mpremote'', ''connect'', ''auto'', ''cp'', ''/home/u/proj/boot.py'',
            '':boot.py''] None,
       Log SUCCESS (Synced ''boot.py''),
       Run [''mpremote'', ''connect'', ''auto'', ''cp'', ''/home/u/proj/main.py'',
            '':main.py''] None,
       Log ERROR (DirectorySyncError OSError)]"
    by (simp add: middle_cannot_start_def file_result_def basename_def cp_argv_def)
  from batch_failures [OF entry2 three_files_listed, of 1 OSError] k before here raised other
  have "sync_directory no_glob [] three_files middle_cannot_start ''/home/u/proj''
      = Some (attempted middle_cannot_start 0 (take 1 ?files)
      @ [Run [''mpremote'', ''connect'', ''auto'', ''cp'', ?files ! 1,
              '':'' @ basename (?files ! 1)] None,
         Log ERROR (DirectorySyncError OSError)])"
    by blast
  then have aborted: "sync_directory no_glob [] three_files middle_cannot_start ''/home/u/proj''
       = Some [Run [''mpremote'', ''connect'', ''auto'', ''cp'', ''/home/u/proj/boot.py'',
                    '':boot.py''] None,
               Log SUCCESS (Synced ''boot.py''),
               Run [''mpremote'', ''connect'', ''auto'', ''cp'', ''/home/u/proj/main.py'',
                    '':main.py''] None,
               Log ERROR (DirectorySyncError OSError)]"
    unfolding what2 .
  from entry three_files_listed single continued entry2 k first here raised other aborted
  show ?thesis
    by blast
qed

text \<open>
  C5, as the claim states it, fails: with three files and the connection flag cleared
  after the first copy, only the first file is copied; no copy is attempted for the other
  two and the batch still logs completion with the count 3.
\<close>

theorem batch_disconnect_counterexample:
  "sync_directory no_glob [] three_files unplugged_after_first ''/home/u/proj''
     = Some [Run (cp_argv ''/home/u/proj/boot.py'' ''boot.py'') None,
             Log SUCCESS (Synced ''boot.py''),
             Log INFO (DirectorySyncComplete 3), RefreshFiles]"
  by code_simp

text \<open>
  C5, amended. The loop checks \<^verbatim>\<open>pico_connected\<close> before each file. When the flag is
  found cleared at the check of file \<open>k\<close>, after \<open>k\<close> files whose copy processes exited,
  the batch consists of the calls and log entries for those first \<open>k\<close> files only: no
  copy is started for file \<open>k\<close> or any later one, and the completion entry still carries
  the number of listed files.
\<close>

theorem batch_stops_when_disconnected:
  assumes entry: "connected_on_entry env"
    and files: "list_files glob cfg tree directory = Inr files"
    and k: "k < length files"
    and before: "\<forall>j<k. connected_at env j \<and> exits (copy_process env j)"
    and gone: "\<not> connected_at env k"
  shows "sync_directory glob cfg tree env directory
           = Some (attempted env 0 (take k files)
                   @ [Log INFO (DirectorySyncComplete (length files)), RefreshFiles])
       \<and> runs (attempted env 0 (take k files))
           = map (\<lambda>filepath. (cp_argv filepath (basename filepath), None)) (take k files)"
proof -
  have "sync_files env 0 files = Some (attempted env 0 (take k files), None)"
    using k before gone by (rule sync_files_break)
  with entry files have "sync_directory glob cfg tree env directory
      = Some (attempted env 0 (take k files)
              @ [Log INFO (DirectorySyncComplete (length files)), RefreshFiles])"
    by (rule sync_directory_complete)
  then show ?thesis
    by (simp add: runs_attempted)
qed

theorem batch_stops_when_disconnected_witness:
  "connected_on_entry unplugged_after_first
   \<and> list_files no_glob [] three_files ''/home/u/proj''
       = Inr [''/home/u/proj/boot.py'', ''/home/u/proj/main.py'', ''/home/u/proj/util.py'']
   \<and> (1::nat) < length [''/home/u/proj/boot.py'', ''/home/u/proj/main.py'', ''/home/u/proj/util.py'']
   \<and> connected_at unplugged_after_first 0 \<and> exits (copy_process unplugged_after_first 0)
   \<and> \<not> connected_at unplugged_after_first 1
   \<and> sync_directory no_glob [] three_files unplugged_after_first ''/home/u/proj''
       = Some [Run (cp_argv ''/home/u/proj/boot.py'' ''boot.py'') None,
               Log SUCCESS (Synced ''boot.py''),
               Log INFO (DirectorySyncComplete 3), RefreshFiles]"
proof -
  let ?files = "[''/home/u/proj/boot.py'', ''/home/u/proj/main.py'', ''/home/u/proj/util.py'']"
  have entry: "connected_on_entry unplugged_after_first"
    by (simp add: unplugged_after_first_def)
  have k: "(1::nat) < length ?files"
    by simp
  have before: "\<forall>j<1. connected_at unplugged_after_first j
      \<and> exits (copy_process unplugged_after_first j)"
    by (simp add: unplugged_after_first_def exits_def)
  have first: "connected_at unplugged_after_first 0
      \<and> exits (copy_process unplugged_after_first 0)"
    by (simp add: unplugged_after_first_def exits_def)
  have gone: "\<not> connected_at unplugged_after_first 1"
    by (simp add: unplugged_after_first_def)
  have what: "attempted unplugged_after_first 0 (take 1 ?files)
      @ [Log INFO (DirectorySyncComplete (length ?files)), RefreshFiles]
    = [Run (cp_argv ''/home/u/proj/boot.py'' ''boot.py'') None,
       Log SUCCESS (Synced ''boot.py''),
       Log INFO (DirectorySyncComplete 3), RefreshFiles]"
    by (simp add: unplugged_after_first_def file_result_def basename_def)
  from batch_stops_when_disconnected [OF entry three_files_listed k before gone]
  have "sync_directory no_glob [] three_files unplugged_after_first ''/home/u/proj''
      = Some (attempted unplugged_after_first 0 (take 1 ?files)
              @ [Log INFO (DirectorySyncComplete (length ?files)), RefreshFiles])"
    by blast
  then have "sync_directory no_glob [] three_files unplugged_after_first ''/home/u/proj''
       = Some [Run (cp_argv ''/home/u/proj/boot.py'' ''boot.py'') None,
               Log SUCCESS (Synced ''boot.py''),
               Log INFO (DirectorySyncComplete 3), RefreshFiles]"
    unfolding what .
  with entry three_files_listed k first gone show ?thesis
    by blast
qed

lemma process_item_offline:
  "\<not> connected_on_entry env \<Longrightarrow> process_item glob cfg tree env item = Some []"
  by (cases item) (simp_all add: process_item_def sync_single_file_def sync_directory_def)

text \<open>
  C4, as the claim states it, fails: with the connection flag cleared, handling a
  \<open>SingleFile\<close> or a \<open>FullDirectory\<close> item does nothing at all; the list of what the
  dispatcher did is empty, so there is no log entry for the dropped item.
\<close>

theorem dropped_item_counterexample:
  "process_sync_queue no_glob [] three_files offline
      [SingleFile ''/home/u/proj/main.py'', FullDirectory ''/home/u/proj'']
     = Some ([FullDirectory ''/home/u/proj''], [])
   \<and> process_sync_queue no_glob [] three_files offline [FullDirectory ''/home/u/proj'']
     = Some ([], [])
   \<and> sync_single_file offline ''/home/u/proj/main.py'' = Some ([], None)
   \<and> sync_directory no_glob [] three_files offline ''/home/u/proj'' = Some []"
  by code_simp

text \<open>
  C4, amended. With the connection flag cleared when the item is handled, the consumer
  loop takes the item off the queue and does nothing else: no call of the transfer tool,
  no log entry, no refresh; the queue afterwards is the rest of the queue, so the item is
  neither handled again nor put back.
\<close>

theorem dropped_item_is_silent:
  assumes "\<not> connected_on_entry env"
  shows "process_sync_queue glob cfg tree env (item # rest) = Some (rest, [])
       \<and> sync_single_file env filepath = Some ([], None)
       \<and> sync_directory glob cfg tree env directory = Some []"
  using assms
  by (simp add: process_sync_queue_def process_item_offline sync_single_file_def
      sync_directory_def)

theorem dropped_item_is_silent_witness:
  "\<not> connected_on_entry offline
   \<and> process_sync_queue no_glob [] three_files offline
        [SingleFile ''/home/u/proj/main.py'', FullDirectory ''/home/u/proj'']
      = Some ([FullDirectory ''/home/u/proj''], [])"
proof -
  have off: "\<not> connected_on_entry offline"
    by (simp add: offline_def)
  from dropped_item_is_silent [OF off, of no_glob "[]" three_files
      "SingleFile ''/home/u/proj/main.py''" "[FullDirectory ''/home/u/proj'']"]
  have "process_sync_queue no_glob [] three_files offline
        [SingleFile ''/home/u/proj/main.py'', FullDirectory ''/home/u/proj'']
      = Some ([FullDirectory ''/home/u/proj''], [])"
    by blast
  with off show ?thesis
    by blast
qed

text \<open>
  C3. With the pattern \<^verbatim>\<open>*.txt\<close> configured and a directory that holds \<^verbatim>\<open>notes.txt\<close> and
  \<^verbatim>\<open>main.py\<close>: the recursive branch copies \<^verbatim>\<open>main.py\<close>, which does not match the
  pattern, and not \<^verbatim>\<open>notes.txt\<close>, which does; the non-recursive branch, which passes the
  pattern to \<^verbatim>\<open>glob\<close>, copies \<^verbatim>\<open>notes.txt\<close>.
\<close>

theorem recursive_sync_ignores_file_types:
  "sync_directory txt_glob recursive_txt notes_and_main all_ok ''/home/u/proj''
     = Some [Run (cp_argv ''/home/u/proj/main.py'' ''main.py'') None,
             Log SUCCESS (Synced ''main.py''),
             Log INFO (DirectorySyncComplete 1), RefreshFiles]
   \<and> sync_directory txt_glob flat_txt notes_and_main all_ok ''/home/u/proj''
     = Some [Run (cp_argv ''/home/u/proj/notes.txt'' ''notes.txt'') None,
             Log SUCCESS (Synced ''notes.txt''),
             Log INFO (DirectorySyncComplete 1), RefreshFiles]"
  by code_simp

text \<open>
  C7, as the claim states it, fails: the copy calls pass no timeout, and with a copy
  process that never exits neither \<^verbatim>\<open>sync_single_file\<close> nor \<^verbatim>\<open>sync_directory\<close> nor the
  iteration of the consumer loop that called them returns.
\<close>

theorem copy_timeout_counterexample:
  "sync_single_file hanging ''/home/u/proj/main.py'' = None
   \<and> process_sync_queue no_glob [] three_files hanging [SingleFile ''/home/u/proj/main.py''] = None
   \<and> process_sync_queue no_glob [] three_files hanging [FullDirectory ''/home/u/proj''] = None
   \<and> sync_single_file all_ok ''/home/u/proj/main.py''
      = Some ([Run (cp_argv ''/home/u/proj/main.py'' ''main.py'') None,
               Log SUCCESS (Synced ''main.py''), RefreshFiles], None)"
  by code_simp

lemma detect_returns:
  "\<exists>m l. detect_pico_model p = Some (Run detect_argv (Some 5), m, l)"
  by (cases p) (simp_all add: detect_pico_model_def split: option.splits)

lemma detect_hangs:
  "detect_pico_model Hangs = Some (Run detect_argv (Some 5), None, ''Model Detection Failed'')"
  by (simp add: detect_pico_model_def)

lemma single_blocks:
  "connected_on_entry env \<Longrightarrow>
   (sync_single_file env filepath = None) = (copy_process env 0 = Hangs)"
  by (cases "copy_process env 0") (simp_all add: sync_single_file_def Let_def)

lemma single_no_timeout:
  "sync_single_file env filepath = Some (out, raised) \<Longrightarrow>
   list_all (\<lambda>call. snd call = None) (runs out)"
  by (cases "copy_process env 0")
     (auto simp: sync_single_file_def Let_def split: if_splits)

lemma sync_files_no_timeout:
  "sync_files env i files = Some (out, raised) \<Longrightarrow>
   list_all (\<lambda>call. snd call = None) (runs out)"
proof (induction files arbitrary: i out raised)
  case Nil
  then show ?case by simp
next
  case (Cons filepath files)
  show ?case
  proof (cases "connected_at env i")
    case False
    with Cons.prems show ?thesis by simp
  next
    case True
    with Cons.prems Cons.IH show ?thesis
      by (cases "copy_process env i")
         (auto split: if_splits option.splits)
  qed
qed


lemma sync_directory_no_timeout:
  assumes "sync_directory glob cfg tree env directory = Some out"
  shows "list_all (\<lambda>call. snd call = None) (runs out)"
proof (cases "connected_on_entry env")
  case False
  with assms show ?thesis
    by (simp add: sync_directory_def)
next
  case True
  show ?thesis
  proof (cases "list_files glob cfg tree directory")
    case (Inl e)
    with assms True show ?thesis
      by (auto simp: sync_directory_def)
  next
    case (Inr files)
    show ?thesis
    proof (cases "sync_files env 0 files")
      case None
      with assms True Inr show ?thesis
        by (simp add: sync_directory_def)
    next
      case (Some result)
      obtain did raised where result: "result = (did, raised)"
        by (cases result)
      from Some result have "list_all (\<lambda>call. snd call = None) (runs did)"
        by (simp add: sync_files_no_timeout)
      with assms True Inr Some result show ?thesis
        by (cases raised) (auto simp: sync_directory_def runs_append)
    qed
  qed
qed

lemma sync_files_hang:
  assumes k: "k < length files"
    and before: "\<forall>j<k. connected_at env j \<and> exits (copy_process env j)"
    and here: "connected_at env k" and hang: "copy_process env k = Hangs"
  shows "sync_files env 0 files = None"
proof -
  define pre where "pre = take k files"
  from k obtain filepath rest where rest: "drop k files = filepath # rest"
    by (cases "drop k files") auto
  from k have len: "length pre = k"
    by (simp add: pre_def)
  have split: "files = pre @ filepath # rest"
    using rest by (simp add: pre_def flip: rest)
  have stop: "sync_files env (0 + length pre) (filepath # rest) = None"
    using here hang by (simp add: len)
  have ok: "\<forall>j<length pre. connected_at env (0 + j) \<and> exits (copy_process env (0 + j))"
    using before by (simp add: len)
  have "sync_files env 0 (pre @ filepath # rest) =
     (case sync_files env (0 + length pre) (filepath # rest) of
        None \<Rightarrow> None
      | Some (out, raised) \<Rightarrow> Some (attempted env 0 pre @ out, raised))"
    using ok by (rule sync_files_prefix)
  then show ?thesis
    unfolding stop split by simp
qed

lemma sync_directory_hang:
  assumes entry: "connected_on_entry env"
    and files: "list_files glob cfg tree directory = Inr files"
    and k: "k < length files"
    and before: "\<forall>j<k. connected_at env j \<and> exits (copy_process env j)"
    and here: "connected_at env k" and hang: "copy_process env k = Hangs"
  shows "sync_directory glob cfg tree env directory = None"
  using entry sync_files_hang [OF k before here hang]
  by (simp add: sync_directory_def files)


lemma queue_single_hang:
  "connected_on_entry env \<Longrightarrow> copy_process env 0 = Hangs \<Longrightarrow>
   process_sync_queue glob cfg tree env (SingleFile filepath # rest) = None"
  by (simp add: process_sync_queue_def process_item_def sync_single_file_def)

text \<open>
  C7, amended. \<^verbatim>\<open>detect_pico_model\<close> passes the timeout 5 and returns for every behaviour
  of the process; on a process that never exits it reports a failed detection. Every call
  that \<^verbatim>\<open>sync_single_file\<close> and \<^verbatim>\<open>sync_directory\<close> make passes no timeout. With the
  connection flag set, \<^verbatim>\<open>sync_single_file\<close> fails to return exactly when its copy process
  never exits, and then the iteration of the consumer loop does not return either; the
  same holds for a batch that reaches a file whose copy process never exits.
\<close>

theorem gateway_timeouts:
  "(\<exists>m l. detect_pico_model p = Some (Run detect_argv (Some 5), m, l))
   \<and> detect_pico_model Hangs
       = Some (Run detect_argv (Some 5), None, ''Model Detection Failed'')
   \<and> (sync_single_file env filepath = Some (out, raised) \<longrightarrow>
        list_all (\<lambda>call. snd call = None) (runs out))
   \<and> (sync_directory glob cfg tree env directory = Some batch \<longrightarrow>
        list_all (\<lambda>call. snd call = None) (runs batch))
   \<and> (connected_on_entry env \<longrightarrow>
        (sync_single_file env filepath = None) = (copy_process env 0 = Hangs))
   \<and> (connected_on_entry env \<and> copy_process env 0 = Hangs \<longrightarrow>
        process_sync_queue glob cfg tree env (SingleFile filepath # rest) = None)
   \<and> (connected_on_entry env \<and> list_files glob cfg tree directory = Inr files
        \<and> k < length files \<and> (\<forall>j<k. connected_at env j \<and> exits (copy_process env j))
        \<and> connected_at env k \<and> copy_process env k = Hangs \<longrightarrow>
        sync_directory glob cfg tree env directory = None
        \<and> process_sync_queue glob cfg tree env (FullDirectory directory # rest) = None)"
proof -
  have batch_hang: "connected_on_entry env \<and> list_files glob cfg tree directory = Inr files
        \<and> k < length files \<and> (\<forall>j<k. connected_at env j \<and> exits (copy_process env j))
        \<and> connected_at env k \<and> copy_process env k = Hangs \<longrightarrow>
        sync_directory glob cfg tree env directory = None
        \<and> process_sync_queue glob cfg tree env (FullDirectory directory # rest) = None"
  proof
    assume h: "connected_on_entry env \<and> list_files glob cfg tree directory = Inr files
        \<and> k < length files \<and> (\<forall>j<k. connected_at env j \<and> exits (copy_process env j))
        \<and> connected_at env k \<and> copy_process env k = Hangs"
    then have "sync_directory glob cfg tree env directory = None"
      using sync_directory_hang [of env glob cfg tree directory files k] by blast
    then show "sync_directory glob cfg tree env directory = None
        \<and> process_sync_queue glob cfg tree env (FullDirectory directory # rest) = None"
      by (simp add: process_sync_queue_def process_item_def)
  qed
  from detect_returns [of p] detect_hangs single_no_timeout [of env filepath out raised]
    sync_directory_no_timeout [of glob cfg tree env directory batch]
    single_blocks [of env filepath] queue_single_hang [of env glob cfg tree filepath rest]
    batch_hang
  show ?thesis
    by blast
qed

theorem gateway_timeouts_witness:
  "sync_single_file all_ok ''/home/u/proj/main.py''
     = Some ([Run (cp_argv ''/home/u/proj/main.py'' ''main.py'') None,
              Log SUCCESS (Synced ''main.py''), RefreshFiles], None)
   \<and> list_all (\<lambda>call. snd call = None)
        (runs [Run (cp_argv ''/home/u/proj/main.py'' ''main.py'') None,
               Log SUCCESS (Synced ''main.py''), RefreshFiles])
   \<and> sync_directory no_glob [] three_files unplugged_after_first ''/home/u/proj''
     = Some [Run (cp_argv ''/home/u/proj/boot.py'' ''boot.py'') None,
             Log SUCCESS (Synced ''boot.py''),
             Log INFO (DirectorySyncComplete 3), RefreshFiles]
   \<and> list_all (\<lambda>call. snd call = None)
        (runs [Run (cp_argv ''/home/u/proj/boot.py'' ''boot.py'') None,
             Log SUCCESS (Synced ''boot.py''),
             Log INFO (DirectorySyncComplete 3), RefreshFiles])
   \<and> connected_on_entry hanging \<and> copy_process hanging 0 = Hangs
   \<and> list_files no_glob [] three_files ''/home/u/proj''
       = Inr [''/home/u/proj/boot.py'', ''/home/u/proj/main.py'', ''/home/u/proj/util.py'']
   \<and> (0::nat) < length [''/home/u/proj/boot.py'', ''/home/u/proj/main.py'', ''/home/u/proj/util.py'']
   \<and> connected_at hanging 0
   \<and> sync_single_file hanging ''/home/u/proj/main.py'' = None
   \<and> process_sync_queue no_glob [] three_files hanging [SingleFile ''/home/u/proj/main.py''] = None
   \<and> sync_directory no_glob [] three_files hanging ''/home/u/proj'' = None
   \<and> process_sync_queue no_glob [] three_files hanging [FullDirectory ''/home/u/proj''] = None"
proof -
  let ?files = "[''/home/u/proj/boot.py'', ''/home/u/proj/main.py'', ''/home/u/proj/util.py'']"
  let ?one = "[Run (cp_argv ''/home/u/proj/main.py'' ''main.py'') None,
               Log SUCCESS (Synced ''main.py''), RefreshFiles]"
  let ?batch = "[Run (cp_argv ''/home/u/proj/boot.py'' ''boot.py'') None,
             Log SUCCESS (Synced ''boot.py''),
             Log INFO (DirectorySyncComplete 3), RefreshFiles]"
  have single: "sync_single_file all_ok ''/home/u/proj/main.py'' = Some (?one, None)"
    by code_simp
  have dir: "sync_directory no_glob [] three_files unplugged_after_first ''/home/u/proj''
      = Some ?batch"
    by code_simp
  have entry: "connected_on_entry hanging" and hang: "copy_process hanging 0 = Hangs"
    and here: "connected_at hanging 0"
    by (simp_all add: hanging_def)
  have k: "(0::nat) < length ?files"
    by simp
  have before: "\<forall>j<0. connected_at hanging j \<and> exits (copy_process hanging j)"
    by simp
  from gateway_timeouts [of _ all_ok "''/home/u/proj/main.py''" ?one None] single
  have a: "list_all (\<lambda>call. snd call = None) (runs ?one)"
    by blast
  from gateway_timeouts [of _ unplugged_after_first _ _ _ no_glob "[]" three_files
      "''/home/u/proj''" ?batch] dir
  have b: "list_all (\<lambda>call. snd call = None) (runs ?batch)"
    by blast
  from gateway_timeouts [of _ hanging "''/home/u/proj/main.py''" _ _ no_glob "[]" three_files
      "''/home/u/proj''" _ "[]" ?files 0] entry hang here k before three_files_listed
  have c: "sync_single_file hanging ''/home/u/proj/main.py'' = None
    \<and> process_sync_queue no_glob [] three_files hanging [SingleFile ''/home/u/proj/main.py''] = None
    \<and> sync_directory no_glob [] three_files hanging ''/home/u/proj'' = None
    \<and> process_sync_queue no_glob [] three_files hanging [FullDirectory ''/home/u/proj''] = None"
    by blast
  from single dir entry hang here k three_files_listed a b c show ?thesis
    by blast
qed

section \<open>Configuration: proofs\<close>

lemma startup_vars_save_fields: "startup_vars (save_fields v cfg) = Some v"
  by (simp add: startup_vars_def save_fields_def config_get_def update_conv as_str_def
      as_bool_def)

lemma save_fields_other_keys:
  "key \<notin> {''sync_directory'', ''auto_sync'', ''file_types'', ''sync_subdirs'', ''auto_flash'',
            ''show_notifications'', ''log_level''} \<Longrightarrow>
   map_of (save_fields v cfg) key = map_of cfg key"
  by (simp add: save_fields_def update_conv)

text \<open>
  C9. When the configuration file can be written and read and \<^verbatim>\<open>json.load\<close> gives back
  the document that \<^verbatim>\<open>json.dump\<close> wrote: \<^verbatim>\<open>save_config\<close> writes the dictionary with the
  seven fields set from the Tk variables, \<^verbatim>\<open>load_config\<close> on the file it wrote returns
  that dictionary, and the seven Tk variables initialised from it at start-up have the
  values that were saved.
\<close>

theorem config_round_trip:
  assumes w: "writable d" and r: "readable d"
    and codec: "load (dump (JDict (save_fields v cfg))) = Inr (JDict (save_fields v cfg))"
  shows "save_config dump v cfg d
           = (save_fields v cfg,
              Inr (d\<lparr>config_file := Some (dump (JDict (save_fields v cfg)))\<rparr>))
       \<and> load_config load (d\<lparr>config_file := Some (dump (JDict (save_fields v cfg)))\<rparr>)
           = JDict (save_fields v cfg)
       \<and> startup_vars (save_fields v cfg) = Some v"
  using w r codec
  by (simp add: save_config_def load_config_def startup_vars_save_fields Let_def)

theorem config_round_trip_witness:
  "writable empty_disk \<and> readable empty_disk
   \<and> Inr (id (JDict (save_fields example_vars old_config))) = (Inr (JDict (save_fields example_vars old_config)) :: exn + json)
   \<and> load_config Inr (empty_disk\<lparr>config_file := Some (id (JDict (save_fields example_vars old_config)))\<rparr>)
       = JDict (save_fields example_vars old_config)
   \<and> startup_vars (save_fields example_vars old_config) = Some example_vars"
proof -
  have w: "writable empty_disk" and r: "readable empty_disk"
    by (simp_all add: empty_disk_def)
  have codec: "Inr (id (JDict (save_fields example_vars old_config)))
      = (Inr (JDict (save_fields example_vars old_config)) :: exn + json)"
    by simp
  from config_round_trip [of empty_disk Inr id example_vars old_config, OF w r codec]
  have "load_config Inr (empty_disk\<lparr>config_file := Some (id (JDict (save_fields example_vars old_config)))\<rparr>)
       = JDict (save_fields example_vars old_config)
   \<and> startup_vars (save_fields example_vars old_config) = Some example_vars"
    by blast
  with w r codec show ?thesis
    by blast
qed

end
